theory Spec2Isabelle
  imports Main
begin

section \<open>JavaScript values and objects\<close>

text \<open>
  The announcement service reads properties of plain JavaScript objects, and a property
  that an object does not define reads as \<open>undefined\<close>. A file object is therefore an
  association list from property names to values, and a property read is a lookup that
  answers \<open>JUndefined\<close> for a missing key. The two closures the route layer attaches to
  a file object (\<open>arrayBuffer\<close> and \<open>stream\<close>) are values that carry the buffer they
  close over. Bytes are natural numbers below 256; no definition looks inside a buffer.
\<close>

type_synonym bytes = "nat list"

datatype jsval =
    JUndefined
  | JNull
  | JStr string
  | JNum nat
  | JBuffer bytes
  | JArrayBufferFn bytes
  | JStreamFn bytes

type_synonym jsobj = "(string \<times> jsval) list"

definition getp :: "jsobj \<Rightarrow> string \<Rightarrow> jsval" where
  "getp obj k = (case map_of obj k of None \<Rightarrow> JUndefined | Some v \<Rightarrow> v)"

text \<open>
  Errors are values. \<open>TypeError p\<close> is the engine's error for calling method \<open>p\<close> on a
  value that has none (its message text is the engine's and is kept as the method
  name); \<open>Error m\<close> is \<open>new Error(m)\<close>; \<open>ServiceError m\<close> is an error object handed back
  by the data store client and rethrown as it is.
\<close>

datatype error = TypeError string | Error string | ServiceError string

fun message :: "error \<Rightarrow> string" where
  "message (TypeError p) = p"
| "message (Error m) = m"
| "message (ServiceError m) = m"

text \<open>
  A group identifier is a string or \<open>null\<close>. The conditional \<open>groupId ? a : b\<close> and the
  operator \<open>x || null\<close> test truthiness: \<open>null\<close>, \<open>undefined\<close> and the empty string are
  falsy. The operator \<open>groupId ?? null\<close> only replaces \<open>null\<close> and \<open>undefined\<close>, which on
  \<open>string option\<close> is the identity.
\<close>

definition truthy :: "string option \<Rightarrow> bool" where
  "truthy g = (case g of None \<Rightarrow> False | Some s \<Rightarrow> s \<noteq> [])"

definition or_null :: "string option \<Rightarrow> string option" where
  "or_null g = (if truthy g then g else None)"

definition nullish_null :: "string option \<Rightarrow> string option" where
  "nullish_null g = (case g of None \<Rightarrow> None | Some s \<Rightarrow> Some s)"

subsection \<open>String operations\<close>

text \<open>\<open>s.split(".")\<close>: the pieces between the separators; never an empty array.\<close>

fun split_on :: "char \<Rightarrow> string \<Rightarrow> string list" where
  "split_on c [] = [[]]"
| "split_on c (x # xs) =
     (if x = c then [] # split_on c xs
      else (case split_on c xs of
              [] \<Rightarrow> [[x]]
            | p # ps \<Rightarrow> (x # p) # ps))"

text \<open>
  \<open>parts[0]\<close> inside a template literal: an index out of range reads \<open>undefined\<close>, which
  the template prints as the text \<open>undefined\<close>.
\<close>

definition index0 :: "string list \<Rightarrow> string" where
  "index0 parts = (case parts of [] \<Rightarrow> ''undefined'' | p # ps \<Rightarrow> p)"

text \<open>The decimal text of a non-negative integer, as a template literal prints it.\<close>

definition digit :: "nat \<Rightarrow> char" where
  "digit d = ''0123456789'' ! d"

function dec :: "nat \<Rightarrow> string" where
  "dec n = (if n < 10 then [digit n] else dec (n div 10) @ [digit (n mod 10)])"
  by pat_completeness auto
termination
  by (relation "measure (\<lambda>n. n)") auto

declare dec.simps [simp del]

text \<open>\<open>t.startsWith(p)\<close>\<close>

definition startsWith :: "string \<Rightarrow> string \<Rightarrow> bool" where
  "startsWith t p = (take (length p) t = p)"

section \<open>Tables, external services and the world\<close>

datatype visibility = Public | Private

record announcement_row =
  ann_id :: nat
  ann_title :: string
  ann_content :: string
  ann_visibility :: visibility
  ann_group_id :: "string option"
  ann_user_id :: string
  ann_created_at :: int

text \<open>The object literal passed to \<open>insert\<close> on table \<open>announcement\<close>.\<close>

record announcement_insert =
  ins_title :: string
  ins_content :: string
  ins_visibility :: visibility
  ins_group_id :: "string option"
  ins_user_id :: string

text \<open>An entry of \<open>fileData\<close>: \<open>{url, name, type}\<close>.\<close>

record file_datum =
  fd_url :: string
  fd_name :: string
  fd_type :: jsval

text \<open>A row of \<open>announcement_files\<close>: \<open>{announcement_id, ...file}\<close>.\<close>

record file_row =
  fr_announcement_id :: nat
  fr_url :: string
  fr_name :: string
  fr_type :: jsval

record user_row =
  usr_id :: string
  usr_name :: string
  usr_email :: string
  usr_email_notifications_enabled :: bool

record member_row =
  gm_user_id :: string
  gm_group_id :: string

text \<open>A call of \<open>storage.from(bucket).upload(path, body, {contentType})\<close>.\<close>

record upload_req =
  up_bucket :: string
  up_path :: string
  up_body :: jsval
  up_contentType :: jsval

text \<open>
  The HTML document of the notification email. The fixed markup of the template is
  left out; the record keeps the values the template interpolates: the title, the
  content, and for every image file its public URL and its name.
\<close>

record email_html =
  html_title :: string
  html_content :: string
  html_images :: "(string \<times> string) list"

text \<open>A call of \<open>resend.emails.send({from, to, subject, html})\<close>.\<close>

record email_req =
  em_from :: string
  em_to :: string
  em_subject :: string
  em_html :: email_html

datatype log_entry = LogError string | LogInfo string

text \<open>
  What the email client answers to a send call. The promise of \<open>emails.send\<close> resolves
  to \<open>{data, error}\<close>: with \<open>error\<close> \<open>null\<close> when the email is accepted (\<open>Sent\<close>), and with
  an error object when the service refuses it or cannot be reached (\<open>Refused\<close>). A
  promise that rejects instead is \<open>Thrown\<close>.
\<close>

datatype send_answer = Sent | Refused string | Thrown string

text \<open>
  The world is everything outside the process that the code reads or changes: the
  upload requests the object store has received and the objects it holds, the four
  tables, the identifier the data store gives the next announcement row, the send
  requests issued to the email service, the console, and the number of clock readings
  taken so far.
\<close>

record world =
  ticks :: nat
  upload_calls :: "upload_req list"
  uploads :: "upload_req list"
  announcement :: "announcement_row list"
  announcement_files :: "file_row list"
  users :: "user_row list"
  group_members :: "member_row list"
  next_id :: nat
  emails :: "email_req list"
  console :: "log_entry list"

text \<open>
  The environment is how the external services answer. Each service may fail on any
  request, depending on the request and on the world at that moment; a failure carries
  the error message. \<open>date_now k\<close> is what the \<open>k\<close>-th reading of \<open>Date.now()\<close> returns,
  \<open>db_clock\<close> is the creation time the data store stamps on a new row,
  \<open>public_url\<close> is \<open>getPublicUrl(path).data.publicUrl\<close>, and \<open>stored_path\<close> is the path
  under which the object store files an object uploaded to a given path.
\<close>

record env =
  date_now :: "nat \<Rightarrow> nat"
  db_clock :: "world \<Rightarrow> int"
  public_url :: "string \<Rightarrow> string"
  stored_path :: "string \<Rightarrow> string"
  upload_error :: "world \<Rightarrow> upload_req \<Rightarrow> string option"
  announcement_error :: "world \<Rightarrow> announcement_insert \<Rightarrow> string option"
  file_row_error :: "world \<Rightarrow> file_row \<Rightarrow> string option"
  group_members_error :: "world \<Rightarrow> string \<Rightarrow> string option"
  users_error :: "world \<Rightarrow> string option"
  membership_error :: "world \<Rightarrow> string \<Rightarrow> string \<Rightarrow> string option"
  listing_error :: "world \<Rightarrow> string option"
  send_answer :: "world \<Rightarrow> email_req \<Rightarrow> send_answer"

definition log_error :: "string \<Rightarrow> world \<Rightarrow> world" where
  "log_error s w = w\<lparr>console := console w @ [LogError s]\<rparr>"

definition log_info :: "string \<Rightarrow> world \<Rightarrow> world" where
  "log_info s w = w\<lparr>console := console w @ [LogInfo s]\<rparr>"

subsection \<open>The service clients\<close>

text \<open>
  \<open>upload\<close> sends the request to the store and answers \<open>{data, error}\<close>: on failure no
  object is stored, on success the object is stored under the path the store files
  it under, and \<open>data.path\<close> is that path.
\<close>

definition storage_upload :: "env \<Rightarrow> world \<Rightarrow> upload_req \<Rightarrow> (string + string) \<times> world" where
  "storage_upload E w r =
     (case upload_error E w r of
        Some m \<Rightarrow> (Inl m, w\<lparr>upload_calls := upload_calls w @ [r]\<rparr>)
      | None \<Rightarrow>
          (Inr (stored_path E (up_path r)),
           w\<lparr>upload_calls := upload_calls w @ [r],
             uploads := uploads w @ [r\<lparr>up_path := stored_path E (up_path r)\<rparr>]\<rparr>))"

text \<open>
  \<open>from("announcement").insert([row]).select("id").single()\<close>: on success the row is
  stored with a fresh identifier and the creation time, and the identifier is returned.
\<close>

definition insert_announcement :: "env \<Rightarrow> world \<Rightarrow> announcement_insert \<Rightarrow> (string + nat) \<times> world" where
  "insert_announcement E w p =
     (case announcement_error E w p of
        Some m \<Rightarrow> (Inl m, w)
      | None \<Rightarrow>
          (Inr (next_id w),
           w\<lparr>announcement := announcement w @
                [\<lparr>ann_id = next_id w, ann_title = ins_title p, ann_content = ins_content p,
                  ann_visibility = ins_visibility p, ann_group_id = ins_group_id p,
                  ann_user_id = ins_user_id p, ann_created_at = db_clock E w\<rparr>],
              next_id := Suc (next_id w)\<rparr>))"

text \<open>\<open>from("announcement_files").insert([row])\<close>\<close>

definition insert_file_row :: "env \<Rightarrow> world \<Rightarrow> file_row \<Rightarrow> string option \<times> world" where
  "insert_file_row E w r =
     (case file_row_error E w r of
        Some m \<Rightarrow> (Some m, w)
      | None \<Rightarrow> (None, w\<lparr>announcement_files := announcement_files w @ [r]\<rparr>))"

text \<open>\<open>from("group_members").select("user_id").eq("group_id", groupId)\<close>\<close>

definition select_group_members :: "env \<Rightarrow> world \<Rightarrow> string \<Rightarrow> string + string list" where
  "select_group_members E w g =
     (case group_members_error E w g of
        Some m \<Rightarrow> Inl m
      | None \<Rightarrow> Inr (map gm_user_id (filter (\<lambda>m. gm_group_id m = g) (group_members w))))"

text \<open>
  \<open>from("users").select("email").eq("email_notifications_enabled", true)\<close>, with
  \<open>.in("id", memberIds)\<close> added when \<open>memberIds\<close> is given.
\<close>

definition select_users :: "env \<Rightarrow> world \<Rightarrow> string list option \<Rightarrow> string + string list" where
  "select_users E w memberIds =
     (case users_error E w of
        Some m \<Rightarrow> Inl m
      | None \<Rightarrow>
          Inr (map usr_email
                (filter (\<lambda>u. usr_email_notifications_enabled u \<and>
                              (case memberIds of None \<Rightarrow> True | Some ids \<Rightarrow> usr_id u \<in> set ids))
                   (users w))))"

text \<open>
  \<open>from("group_members").select("*").eq("user_id", u).eq("group_id", g).single()\<close>:
  \<open>single\<close> answers an error unless exactly one row matches.
\<close>

definition select_membership :: "env \<Rightarrow> world \<Rightarrow> string \<Rightarrow> string \<Rightarrow> string + member_row" where
  "select_membership E w u g =
     (case membership_error E w u g of
        Some m \<Rightarrow> Inl m
      | None \<Rightarrow>
          (case filter (\<lambda>m. gm_user_id m = u \<and> gm_group_id m = g) (group_members w) of
             [m] \<Rightarrow> Inr m
           | _ \<Rightarrow> Inl ''PGRST116''))"

text \<open>
  \<open>from("announcement").select("*, announcement_files(*), users:user_id(name, email)")
  .eq("visibility", "public").order("created_at", {ascending: false})\<close>: every public
  row with its file rows and with the name and email of its author (\<open>null\<close> when no
  user has that id), newest first. Rows with equal creation time keep their table order.
\<close>

record listing_row =
  ls_row :: announcement_row
  ls_files :: "file_row list"
  ls_user :: "(string \<times> string) option"

definition join_row :: "world \<Rightarrow> announcement_row \<Rightarrow> listing_row" where
  "join_row w r =
     \<lparr>ls_row = r,
      ls_files = filter (\<lambda>f. fr_announcement_id f = ann_id r) (announcement_files w),
      ls_user = (case filter (\<lambda>u. usr_id u = ann_user_id r) (users w) of
                   [] \<Rightarrow> None
                 | u # us \<Rightarrow> Some (usr_name u, usr_email u))\<rparr>"

definition select_public :: "env \<Rightarrow> world \<Rightarrow> string + listing_row list" where
  "select_public E w =
     (case listing_error E w of
        Some m \<Rightarrow> Inl m
      | None \<Rightarrow>
          Inr (map (join_row w)
                (sort_key (\<lambda>r. - ann_created_at r)
                   (filter (\<lambda>r. ann_visibility r = Public) (announcement w)))))"

section \<open>The announcement service\<close>

text \<open>
  \<open>Promise.all(xs.map(async ...))\<close> starts every callback in list order; each runs up to
  its first \<open>await\<close> before the next one starts, and the awaited requests settle later.
  The model runs the synchronous parts in list order and then settles the requests in
  list order (the order in which concurrent requests really settle is the services').
  Every request that was started is settled, also after another one has failed:
  nothing cancels it. \<open>Promise.all\<close> rejects with the rejection that happened first.
\<close>

fun rejections :: "(error + 'a) list \<Rightarrow> error list" where
  "rejections [] = []"
| "rejections (Inl e # rs) = e # rejections rs"
| "rejections (Inr v # rs) = rejections rs"

fun fulfilled :: "(error + 'a) list \<Rightarrow> 'a list" where
  "fulfilled [] = []"
| "fulfilled (Inl e # rs) = fulfilled rs"
| "fulfilled (Inr v # rs) = v # fulfilled rs"

definition first_rejection :: "error list \<Rightarrow> error option" where
  "first_rejection es = (case es of [] \<Rightarrow> None | e # es' \<Rightarrow> Some e)"

subsection \<open>Uploading the files\<close>

text \<open>\<open>file.originalname.split(".")\<close>: a \<open>TypeError\<close> unless the property is a string.\<close>

definition split_originalname :: "jsobj \<Rightarrow> error + string list" where
  "split_originalname file =
     (case getp file ''originalname'' of
        JStr s \<Rightarrow> Inr (split_on CHR ''.'' s)
      | _ \<Rightarrow> Inl (TypeError ''split''))"

text \<open>
  The upload callback up to its \<open>await\<close>: the file name from the base of the original
  name and the clock, and the upload request. (\<open>fileExt\<close> is computed and never used.)
\<close>

definition start_upload :: "env \<Rightarrow> world \<Rightarrow> jsobj \<Rightarrow> (error + string \<times> upload_req) \<times> world" where
  "start_upload E w file =
     (case split_originalname file of
        Inl e \<Rightarrow> (Inl e, w)
      | Inr parts \<Rightarrow>
          (let fileName = index0 parts @ ''-'' @ dec (date_now E (ticks w))
           in (Inr (fileName,
                    \<lparr>up_bucket = ''Uroboros'',
                      up_path = ''announcement/'' @ fileName @ ''.png'',
                      up_body = getp file ''buffer'',
                      up_contentType = getp file ''mimetype''\<rparr>),
               w\<lparr>ticks := Suc (ticks w)\<rparr>)))"

fun start_uploads :: "env \<Rightarrow> world \<Rightarrow> jsobj list \<Rightarrow> (error + string \<times> upload_req) list \<times> world" where
  "start_uploads E w [] = ([], w)"
| "start_uploads E w (f # fs) =
     (case start_upload E w f of
        (r, w1) \<Rightarrow> (case start_uploads E w1 fs of (rs, w2) \<Rightarrow> (r # rs, w2)))"

text \<open>The upload callback after its \<open>await\<close>: throw on an upload error, else push to \<open>fileData\<close>.\<close>

definition finish_upload :: "env \<Rightarrow> world \<Rightarrow> string \<times> upload_req \<Rightarrow> (error + file_datum) \<times> world" where
  "finish_upload E w p =
     (case storage_upload E w (snd p) of
        (Inl m, w1) \<Rightarrow> (Inl (Error (''Error uploading file: '' @ m)), w1)
      | (Inr path, w1) \<Rightarrow>
          (Inr \<lparr>fd_url = path, fd_name = fst p, fd_type = up_contentType (snd p)\<rparr>, w1))"

fun finish_uploads :: "env \<Rightarrow> world \<Rightarrow> (string \<times> upload_req) list \<Rightarrow> (error + file_datum) list \<times> world" where
  "finish_uploads E w [] = ([], w)"
| "finish_uploads E w (p # ps) =
     (case finish_upload E w p of
        (r, w1) \<Rightarrow> (case finish_uploads E w1 ps of (rs, w2) \<Rightarrow> (r # rs, w2)))"

text \<open>
  The first stage of \<open>createAnnouncements\<close>: the error \<open>Promise.all\<close> rejects with, if
  any (a callback that threw before its \<open>await\<close> rejected before any upload settled),
  the \<open>fileData\<close> collected, and the world after every started upload has settled.
\<close>

definition upload_stage :: "env \<Rightarrow> world \<Rightarrow> jsobj list \<Rightarrow> (error option \<times> file_datum list) \<times> world" where
  "upload_stage E w fs =
     (if fs \<noteq> [] then
        (case start_uploads E w fs of
           (started, w1) \<Rightarrow>
             (case finish_uploads E w1 (fulfilled started) of
                (settled, w2) \<Rightarrow>
                  ((first_rejection (rejections started @ rejections settled),
                    fulfilled settled), w2)))
      else ((None, []), w))"

text \<open>The outcomes of the upload requests of the first stage, one for each request made.\<close>

definition upload_outcomes :: "env \<Rightarrow> world \<Rightarrow> jsobj list \<Rightarrow> (error + file_datum) list" where
  "upload_outcomes E w fs =
     (case start_uploads E w fs of
        (started, w1) \<Rightarrow> fst (finish_uploads E w1 (fulfilled started)))"

text \<open>
  The upload requests in the words of the specification, for the files in their order
  and the clock readings from the \<open>k\<close>-th on: a file whose original name is a string gets
  the request with the path \<open>announcement/\<close>, the text of the name before its first
  dot, a hyphen, the clock reading and \<open>.png\<close>, with the file's bytes as body and its
  MIME type as content type; a file without such a name gets none.
\<close>

fun spec_upload_requests :: "env \<Rightarrow> nat \<Rightarrow> jsobj list \<Rightarrow> upload_req list" where
  "spec_upload_requests E k [] = []"
| "spec_upload_requests E k (f # fs) =
     (case getp f ''originalname'' of
        JStr s \<Rightarrow>
          \<lparr>up_bucket = ''Uroboros'',
            up_path = ''announcement/'' @ takeWhile (\<lambda>c. c \<noteq> CHR ''.'') s @ ''-'' @
                        dec (date_now E k) @ ''.png'',
            up_body = getp f ''buffer'',
            up_contentType = getp f ''mimetype''\<rparr> # spec_upload_requests E (Suc k) fs
      | _ \<Rightarrow> spec_upload_requests E k fs)"

subsection \<open>Inserting the rows\<close>

definition announcement_payload :: "string \<Rightarrow> string \<Rightarrow> string \<Rightarrow> string option \<Rightarrow> announcement_insert" where
  "announcement_payload t c userId groupId =
     \<lparr>ins_title = t, ins_content = c,
      ins_visibility = (if truthy groupId then Private else Public),
      ins_group_id = nullish_null groupId,
      ins_user_id = userId\<rparr>"

definition file_payload :: "nat \<Rightarrow> file_datum \<Rightarrow> file_row" where
  "file_payload a f =
     \<lparr>fr_announcement_id = a, fr_url = fd_url f, fr_name = fd_name f, fr_type = fd_type f\<rparr>"

definition insert_file :: "env \<Rightarrow> world \<Rightarrow> nat \<Rightarrow> file_datum \<Rightarrow> (error + unit) \<times> world" where
  "insert_file E w a f =
     (case insert_file_row E w (file_payload a f) of
        (Some m, w1) \<Rightarrow>
          (Inl (ServiceError m), log_error ''Error inserting into announcement_files:'' w1)
      | (None, w1) \<Rightarrow> (Inr (), w1))"

fun insert_files :: "env \<Rightarrow> world \<Rightarrow> nat \<Rightarrow> file_datum list \<Rightarrow> (error + unit) list \<times> world" where
  "insert_files E w a [] = ([], w)"
| "insert_files E w a (f # fs) =
     (case insert_file E w a f of
        (r, w1) \<Rightarrow> (case insert_files E w1 a fs of (rs, w2) \<Rightarrow> (r # rs, w2)))"

subsection \<open>Sending the notification emails\<close>

text \<open>\<open>files.filter((file) => file.type.startsWith("image/"))\<close>\<close>

fun image_files :: "file_datum list \<Rightarrow> error + file_datum list" where
  "image_files [] = Inr []"
| "image_files (f # fs) =
     (case fd_type f of
        JStr t \<Rightarrow>
          (case image_files fs of
             Inl e \<Rightarrow> Inl e
           | Inr r \<Rightarrow> Inr (if startsWith t ''image/'' then f # r else r))
      | _ \<Rightarrow> Inl (TypeError ''startsWith''))"

definition createEmailHtml :: "env \<Rightarrow> string \<Rightarrow> string \<Rightarrow> file_datum list \<Rightarrow> error + email_html" where
  "createEmailHtml E t c fs =
     (case image_files fs of
        Inl e \<Rightarrow> Inl e
      | Inr imageFiles \<Rightarrow>
          Inr \<lparr>html_title = t, html_content = c,
               html_images = map (\<lambda>f. (public_url E (fd_url f), fd_name f)) imageFiles\<rparr>)"

definition email_to :: "string \<Rightarrow> email_html \<Rightarrow> string \<Rightarrow> email_req" where
  "email_to t h addr =
     \<lparr>em_from = ''On behalf of the Archdiocese of Lipa <archdioceseoflipa@togather.app>'',
      em_to = addr, em_subject = t, em_html = h\<rparr>"

text \<open>
  The send callback after its \<open>await\<close>. The value the promise resolves to is not looked
  at: the callback logs the email as sent, also when the answer carries an error.
  Only a promise that rejects reaches the \<open>catch\<close>, which logs the failure.
\<close>

definition finish_send :: "env \<Rightarrow> world \<Rightarrow> email_req \<Rightarrow> world" where
  "finish_send E w r =
     (case send_answer E w r of
        Thrown m \<Rightarrow> log_error (''Failed to send email to '' @ em_to r @ '':'') w
      | _ \<Rightarrow> log_info (''Email sent to '' @ em_to r) w)"

fun finish_sends :: "env \<Rightarrow> world \<Rightarrow> email_req list \<Rightarrow> world" where
  "finish_sends E w [] = w"
| "finish_sends E w (r # rs) = finish_sends E (finish_send E w r) rs"

definition send_emails :: "env \<Rightarrow> world \<Rightarrow> string \<Rightarrow> email_html \<Rightarrow> string list \<Rightarrow> world" where
  "send_emails E w t h addrs =
     (let rs = map (email_to t h) addrs
      in finish_sends E (w\<lparr>emails := emails w @ rs\<rparr>) rs)"

text \<open>
  The part of \<open>sendAnnouncementEmailToUsers\<close> from \<open>await query\<close> on; \<open>memberIds\<close> is
  \<open>None\<close> when the query has no \<open>.in("id", memberIds)\<close> filter. The result is the error
  thrown, if any.
\<close>

definition notify_users ::
  "env \<Rightarrow> world \<Rightarrow> string \<Rightarrow> string \<Rightarrow> file_datum list \<Rightarrow> string list option \<Rightarrow> error option \<times> world" where
  "notify_users E w t c fs memberIds =
     (case select_users E w memberIds of
        Inl m \<Rightarrow> (None, log_error ''Error fetching users for email notifications:'' w)
      | Inr addrs \<Rightarrow>
          (if addrs = [] then (None, log_info ''No users to notify'' w)
           else (case createEmailHtml E t c fs of
                   Inl e \<Rightarrow> (Some e, w)
                 | Inr h \<Rightarrow> (None, send_emails E w t h addrs))))"

text \<open>
  The part of \<open>sendAnnouncementEmailToUsers\<close> under \<open>if (groupId)\<close>: either the function
  returns there (\<open>Inl\<close>, with the world at that moment), or the query goes on with the
  filter \<open>.in("id", memberIds)\<close> or with none.
\<close>

definition group_filter :: "env \<Rightarrow> world \<Rightarrow> string option \<Rightarrow> world + string list option" where
  "group_filter E w groupId =
     (case groupId of
        None \<Rightarrow> Inr None
      | Some g \<Rightarrow>
          (if g \<noteq> [] then
             (case select_group_members E w g of
                Inl m \<Rightarrow> Inl (log_error ''Error fetching group members:'' w)
              | Inr memberIds \<Rightarrow>
                  (if memberIds \<noteq> [] then Inr (Some memberIds) else Inl w))
           else Inr None))"

definition sendAnnouncementEmailToUsers ::
  "env \<Rightarrow> world \<Rightarrow> string \<Rightarrow> string \<Rightarrow> file_datum list \<Rightarrow> string option \<Rightarrow> error option \<times> world" where
  "sendAnnouncementEmailToUsers E w t c fs groupId =
     (case group_filter E w groupId of
        Inl w1 \<Rightarrow> (None, w1)
      | Inr memberIds \<Rightarrow> notify_users E w t c fs memberIds)"

text \<open>
  What the email service answers to each send request, in the order the sends settle,
  and the console line the send callback writes for an answer.
\<close>

fun send_outcomes :: "env \<Rightarrow> world \<Rightarrow> email_req list \<Rightarrow> send_answer list" where
  "send_outcomes E w [] = []"
| "send_outcomes E w (r # rs) = send_answer E w r # send_outcomes E (finish_send E w r) rs"

fun send_log :: "email_req \<times> send_answer \<Rightarrow> log_entry" where
  "send_log (r, Thrown m) = LogError (''Failed to send email to '' @ em_to r @ '':'')"
| "send_log (r, Refused m) = LogInfo (''Email sent to '' @ em_to r)"
| "send_log (r, Sent) = LogInfo (''Email sent to '' @ em_to r)"


subsection \<open>Creating an announcement\<close>

record ann_data =
  d_title :: string
  d_content :: string
  d_files :: "jsobj list"

text \<open>The \<open>try\<close>/\<open>catch\<close> around the notification: an error thrown there is logged.\<close>

definition notify_stage :: "env \<Rightarrow> world \<Rightarrow> ann_data \<Rightarrow> file_datum list \<Rightarrow> string option \<Rightarrow> world" where
  "notify_stage E w dat fileData groupId =
     (case sendAnnouncementEmailToUsers E w (d_title dat) (d_content dat) fileData groupId of
        (Some e, w1) \<Rightarrow> log_error ''Error sending announcement emails:'' w1
      | (None, w1) \<Rightarrow> w1)"

text \<open>
  The third stage: the file rows of announcement \<open>a\<close>, and the error \<open>Promise.all\<close>
  rejects with, if any.
\<close>

definition file_rows_stage ::
  "env \<Rightarrow> world \<Rightarrow> nat \<Rightarrow> file_datum list \<Rightarrow> error option \<times> world" where
  "file_rows_stage E w a fileData =
     (if fileData \<noteq> [] then
        (case insert_files E w a fileData of
           (rs, w1) \<Rightarrow> (first_rejection (rejections rs), w1))
      else (None, w))"

definition createAnnouncements ::
  "env \<Rightarrow> world \<Rightarrow> ann_data \<Rightarrow> string \<Rightarrow> string option \<Rightarrow> (error + nat) \<times> world" where
  "createAnnouncements E w dat userId groupId =
     (case upload_stage E w (d_files dat) of
        ((Some e, fileData), w1) \<Rightarrow> (Inl e, w1)
      | ((None, fileData), w1) \<Rightarrow>
          (case insert_announcement E w1
                  (announcement_payload (d_title dat) (d_content dat) userId groupId) of
             (Inl m, w2) \<Rightarrow> (Inl (ServiceError m), log_error ''Error inserting announcement:'' w2)
           | (Inr a, w2) \<Rightarrow>
               (case file_rows_stage E w2 a fileData of
                  (Some e, w3) \<Rightarrow> (Inl e, w3)
                | (None, w3) \<Rightarrow> (Inr a, notify_stage E w3 dat fileData groupId))))"

text \<open>
  The referential invariant of the tables: every file row references an announcement
  row that exists.
\<close>

definition references_ok :: "world \<Rightarrow> bool" where
  "references_ok w =
     (\<forall>f\<in>set (announcement_files w). \<exists>r\<in>set (announcement w). ann_id r = fr_announcement_id f)"

section \<open>The routes\<close>

text \<open>A file as the multipart parser hands it to a route, kept in memory.\<close>

record multer_file =
  mf_originalname :: string
  mf_mimetype :: string
  mf_size :: nat
  mf_buffer :: bytes

text \<open>
  The request as a route handler sees it after authentication and multipart parsing:
  \<open>req.user.id\<close>, the body fields, the path parameter and \<open>req.files\<close>.
\<close>

record request =
  rq_user_id :: string
  rq_title :: string
  rq_content :: string
  rq_groupId :: "string option"
  rq_param_groupId :: string
  rq_files :: "multer_file list"

datatype json_data = NoData | Created nat | Listing "listing_row list"

record response =
  rs_status :: nat
  rs_success :: bool
  rs_data :: json_data
  rs_message :: "string option"
  rs_error :: "string option"

text \<open>The object each route builds from an uploaded file.\<close>

definition fileObj :: "multer_file \<Rightarrow> jsobj" where
  "fileObj file =
     [(''name'', JStr (mf_originalname file)),
      (''type'', JStr (mf_mimetype file)),
      (''size'', JNum (mf_size file)),
      (''arrayBuffer'', JArrayBufferFn (mf_buffer file)),
      (''stream'', JStreamFn (mf_buffer file))]"

definition created :: "nat \<Rightarrow> string \<Rightarrow> response" where
  "created a m =
     \<lparr>rs_status = 201, rs_success = True, rs_data = Created a,
      rs_message = Some m, rs_error = None\<rparr>"

definition failed :: "string \<Rightarrow> error \<Rightarrow> response" where
  "failed m e =
     \<lparr>rs_status = 500, rs_success = False, rs_data = NoData,
      rs_message = Some m, rs_error = Some (message e)\<rparr>"

definition forbidden :: response where
  "forbidden =
     \<lparr>rs_status = 403, rs_success = False, rs_data = NoData,
      rs_message = Some ''You do not have permission to post announcements in this group'',
      rs_error = None\<rparr>"

text \<open>\<open>POST /api/announcements\<close>\<close>

definition post_announcement :: "env \<Rightarrow> world \<Rightarrow> request \<Rightarrow> response \<times> world" where
  "post_announcement E w req =
     (let groupId = or_null (rq_groupId req);
          userId = rq_user_id req;
          dat = \<lparr>d_title = rq_title req, d_content = rq_content req,
                 d_files = map fileObj (rq_files req)\<rparr>
      in case createAnnouncements E w dat userId groupId of
           (Inr a, w1) \<Rightarrow> (created a ''Announcement created successfully'', w1)
         | (Inl e, w1) \<Rightarrow>
             (failed ''Failed to create announcement'' e,
              log_error ''Error creating announcement:'' w1))"

text \<open>\<open>POST /api/announcements/group/:groupId\<close>\<close>

definition post_group_announcement :: "env \<Rightarrow> world \<Rightarrow> request \<Rightarrow> response \<times> world" where
  "post_group_announcement E w req =
     (let groupId = rq_param_groupId req;
          userId = rq_user_id req
      in case select_membership E w userId groupId of
           Inl m \<Rightarrow> (forbidden, w)
         | Inr membership \<Rightarrow>
             (let dat = \<lparr>d_title = rq_title req, d_content = rq_content req,
                         d_files = map fileObj (rq_files req)\<rparr>
              in case createAnnouncements E w dat userId (Some groupId) of
                   (Inr a, w1) \<Rightarrow> (created a ''Group announcement created successfully'', w1)
                 | (Inl e, w1) \<Rightarrow>
                     (failed ''Failed to create group announcement'' e,
                      log_error ''Error creating group announcement:'' w1)))"

text \<open>\<open>GET /api/announcements\<close>\<close>

definition get_announcements :: "env \<Rightarrow> world \<Rightarrow> response \<times> world" where
  "get_announcements E w =
     (case select_public E w of
        Inl m \<Rightarrow>
          (failed ''Failed to fetch announcements'' (ServiceError m),
           log_error ''Error fetching announcements:'' w)
      | Inr announcements \<Rightarrow>
          (\<lparr>rs_status = 200, rs_success = True, rs_data = Listing announcements,
            rs_message = None, rs_error = None\<rparr>, w))"

section \<open>Example environments and worlds\<close>

text \<open>
  Concrete inputs on which the model is run: an environment in which no service fails,
  an empty world, and a file object with the properties the service reads.
\<close>

definition env0 :: env where
  "env0 = \<lparr>date_now = (\<lambda>k. 1700000000000 + k), db_clock = (\<lambda>w. 1700000000500),
     public_url = (\<lambda>p. ''https://store.example/'' @ p), stored_path = (\<lambda>p. p),
     upload_error = (\<lambda>w r. None), announcement_error = (\<lambda>w p. None),
     file_row_error = (\<lambda>w r. None), group_members_error = (\<lambda>w g. None),
     users_error = (\<lambda>w. None), membership_error = (\<lambda>w u g. None),
     listing_error = (\<lambda>w. None), send_answer = (\<lambda>w r. Sent)\<rparr>"

definition world0 :: world where
  "world0 = \<lparr>ticks = 0, upload_calls = [], uploads = [], announcement = [], announcement_files = [],
     users = [], group_members = [], next_id = 1, emails = [], console = []\<rparr>"

definition photo :: jsobj where
  "photo = [(''originalname'', JStr ''photo.final.jpg''), (''buffer'', JBuffer [255, 216]),
     (''mimetype'', JStr ''image/jpeg'')]"

definition minutes :: jsobj where
  "minutes = [(''originalname'', JStr ''minutes.pdf''), (''buffer'', JBuffer [37, 80]),
     (''mimetype'', JStr ''application/pdf'')]"

definition env_upload_fails :: env where
  "env_upload_fails = env0\<lparr>upload_error := (\<lambda>w r. Some ''storage is full'')\<rparr>"

definition upload0 :: multer_file where
  "upload0 = \<lparr>mf_originalname = ''photo.final.jpg'', mf_mimetype = ''image/jpeg'',
     mf_size = 2, mf_buffer = [255, 216]\<rparr>"

definition request0 :: request where
  "request0 = \<lparr>rq_user_id = ''u1'', rq_title = ''T'', rq_content = ''C'', rq_groupId = None,
     rq_param_groupId = ''g1'', rq_files = [upload0]\<rparr>"

definition world_member :: world where
  "world_member = world0\<lparr>group_members := [\<lparr>gm_user_id = ''u1'', gm_group_id = ''g1''\<rparr>]\<rparr>"

definition env_membership_fails :: env where
  "env_membership_fails = env0\<lparr>membership_error := (\<lambda>w u g. Some ''connection reset'')\<rparr>"

definition world_listing :: world where
  "world_listing = world0\<lparr>
     announcement :=
       [\<lparr>ann_id = 1, ann_title = ''old'', ann_content = ''a'', ann_visibility = Public,
         ann_group_id = None, ann_user_id = ''u1'', ann_created_at = 10\<rparr>,
        \<lparr>ann_id = 2, ann_title = ''group'', ann_content = ''b'', ann_visibility = Private,
         ann_group_id = Some ''g1'', ann_user_id = ''u1'', ann_created_at = 20\<rparr>,
        \<lparr>ann_id = 3, ann_title = ''new'', ann_content = ''c'', ann_visibility = Public,
         ann_group_id = None, ann_user_id = ''u2'', ann_created_at = 30\<rparr>],
     announcement_files :=
       [\<lparr>fr_announcement_id = 3, fr_url = ''announcement/p-1.png'', fr_name = ''p-1'',
         fr_type = JStr ''image/png''\<rparr>],
     users :=
       [\<lparr>usr_id = ''u1'', usr_name = ''Ana'', usr_email = ''ana@example.org'',
         usr_email_notifications_enabled = True\<rparr>],
     next_id := 4\<rparr>"

definition world_users :: world where
  "world_users = world0\<lparr>
     users :=
       [\<lparr>usr_id = ''u1'', usr_name = ''Ana'', usr_email = ''ana@example.org'',
         usr_email_notifications_enabled = True\<rparr>,
        \<lparr>usr_id = ''u2'', usr_name = ''Ben'', usr_email = ''ben@example.org'',
         usr_email_notifications_enabled = True\<rparr>,
        \<lparr>usr_id = ''u3'', usr_name = ''Cy'', usr_email = ''cy@example.org'',
         usr_email_notifications_enabled = False\<rparr>,
        \<lparr>usr_id = ''u4'', usr_name = ''Dee'', usr_email = ''dee@example.org'',
         usr_email_notifications_enabled = True\<rparr>],
     group_members :=
       [\<lparr>gm_user_id = ''u1'', gm_group_id = ''g1''\<rparr>,
        \<lparr>gm_user_id = ''u3'', gm_group_id = ''g1''\<rparr>,
        \<lparr>gm_user_id = ''u4'', gm_group_id = ''g1''\<rparr>]\<rparr>"

definition note0 :: ann_data where
  "note0 = \<lparr>d_title = ''T'', d_content = ''C'', d_files = []\<rparr>"

definition env_send_throws :: env where
  "env_send_throws = env0\<lparr>send_answer :=
     (\<lambda>w r. if em_to r = ''ben@example.org'' then Thrown ''socket closed'' else Sent)\<rparr>"

definition env_send_refused :: env where
  "env_send_refused = env0\<lparr>send_answer :=
     (\<lambda>w r. if em_to r = ''ben@example.org'' then Refused ''mailbox full'' else Sent)\<rparr>"


definition request_outsider :: request where
  "request_outsider = \<lparr>rq_user_id = ''u7'', rq_title = ''T'', rq_content = ''C'',
     rq_groupId = None, rq_param_groupId = ''g1'', rq_files = []\<rparr>"

lemmas model_defs =
  getp_def truthy_def or_null_def nullish_null_def index0_def digit_def dec.simps startsWith_def
  log_error_def log_info_def storage_upload_def insert_announcement_def insert_file_row_def
  select_group_members_def select_users_def select_membership_def join_row_def select_public_def
  first_rejection_def split_originalname_def start_upload_def finish_upload_def upload_stage_def
  upload_outcomes_def announcement_payload_def file_payload_def
  insert_file_def createEmailHtml_def email_to_def finish_send_def send_emails_def
  notify_users_def group_filter_def sendAnnouncementEmailToUsers_def notify_stage_def file_rows_stage_def
  createAnnouncements_def fileObj_def created_def failed_def forbidden_def
  post_announcement_def post_group_announcement_def get_announcements_def

section \<open>Properties of the stages\<close>

subsection \<open>Strings\<close>

lemma split_on_nonempty: "split_on c s \<noteq> []"
  by (induction s) (auto split: list.splits)

lemma index0_split_on: "index0 (split_on c s) = takeWhile (\<lambda>x. x \<noteq> c) s"
  by (induction s) (auto simp: index0_def split_on_nonempty split: list.splits)

subsection \<open>Unfolding the loops\<close>

lemma start_uploads_snd:
  "snd (start_uploads E w (f # fs)) = snd (start_uploads E (snd (start_upload E w f)) fs)"
  by (simp add: case_prod_beta)

lemma start_uploads_fst:
  "fst (start_uploads E w (f # fs)) =
     fst (start_upload E w f) # fst (start_uploads E (snd (start_upload E w f)) fs)"
  by (simp add: case_prod_beta)

lemma finish_uploads_snd:
  "snd (finish_uploads E w (p # ps)) = snd (finish_uploads E (snd (finish_upload E w p)) ps)"
  by (simp add: case_prod_beta)


lemma insert_files_snd:
  "snd (insert_files E w a (f # fs)) = snd (insert_files E (snd (insert_file E w a f)) a fs)"
  by (simp add: case_prod_beta)

lemma insert_files_fst:
  "fst (insert_files E w a (f # fs)) =
     fst (insert_file E w a f) # fst (insert_files E (snd (insert_file E w a f)) a fs)"
  by (simp add: case_prod_beta)

lemma first_rejection_None: "first_rejection es = None \<longleftrightarrow> es = []"
  by (simp add: first_rejection_def split: list.splits)

lemma rejections_empty: "rejections rs = [] \<longleftrightarrow> (\<forall>r\<in>set rs. \<not> isl r)"
  by (induction rs rule: rejections.induct) auto

lemma length_fulfilled: "rejections rs = [] \<Longrightarrow> length (fulfilled rs) = length rs"
  by (induction rs rule: rejections.induct) auto

subsection \<open>What the upload stage leaves alone\<close>

lemma start_upload_world:
  "upload_calls (snd (start_upload E w f)) = upload_calls w \<and>
   uploads (snd (start_upload E w f)) = uploads w \<and>
   announcement (snd (start_upload E w f)) = announcement w \<and>
   announcement_files (snd (start_upload E w f)) = announcement_files w \<and>
   users (snd (start_upload E w f)) = users w \<and>
   group_members (snd (start_upload E w f)) = group_members w \<and>
   next_id (snd (start_upload E w f)) = next_id w \<and>
   emails (snd (start_upload E w f)) = emails w \<and>
   console (snd (start_upload E w f)) = console w"
  by (simp add: start_upload_def Let_def split: sum.splits)

lemma start_uploads_world:
  "upload_calls (snd (start_uploads E w fs)) = upload_calls w \<and>
   uploads (snd (start_uploads E w fs)) = uploads w \<and>
   announcement (snd (start_uploads E w fs)) = announcement w \<and>
   announcement_files (snd (start_uploads E w fs)) = announcement_files w \<and>
   users (snd (start_uploads E w fs)) = users w \<and>
   group_members (snd (start_uploads E w fs)) = group_members w \<and>
   next_id (snd (start_uploads E w fs)) = next_id w \<and>
   emails (snd (start_uploads E w fs)) = emails w \<and>
   console (snd (start_uploads E w fs)) = console w"
proof (induction fs arbitrary: w)
  case Nil
  show ?case by simp
next
  case (Cons f fs)
  show ?case
    using Cons.IH [of "snd (start_upload E w f)"] start_upload_world [of E w f]
    by (simp only: start_uploads_snd)
qed

lemma finish_upload_world:
  "ticks (snd (finish_upload E w p)) = ticks w \<and>
   announcement (snd (finish_upload E w p)) = announcement w \<and>
   announcement_files (snd (finish_upload E w p)) = announcement_files w \<and>
   users (snd (finish_upload E w p)) = users w \<and>
   group_members (snd (finish_upload E w p)) = group_members w \<and>
   next_id (snd (finish_upload E w p)) = next_id w \<and>
   emails (snd (finish_upload E w p)) = emails w \<and>
   console (snd (finish_upload E w p)) = console w"
  by (simp add: finish_upload_def storage_upload_def split: option.splits)

lemma finish_uploads_world:
  "ticks (snd (finish_uploads E w ps)) = ticks w \<and>
   announcement (snd (finish_uploads E w ps)) = announcement w \<and>
   announcement_files (snd (finish_uploads E w ps)) = announcement_files w \<and>
   users (snd (finish_uploads E w ps)) = users w \<and>
   group_members (snd (finish_uploads E w ps)) = group_members w \<and>
   next_id (snd (finish_uploads E w ps)) = next_id w \<and>
   emails (snd (finish_uploads E w ps)) = emails w \<and>
   console (snd (finish_uploads E w ps)) = console w"
proof (induction ps arbitrary: w)
  case Nil
  show ?case by simp
next
  case (Cons p ps)
  show ?case
    using Cons.IH [of "snd (finish_upload E w p)"] finish_upload_world [of E w p]
    by (simp only: finish_uploads_snd)
qed

lemma upload_stage_world:
  "announcement (snd (upload_stage E w fs)) = announcement w \<and>
   announcement_files (snd (upload_stage E w fs)) = announcement_files w \<and>
   users (snd (upload_stage E w fs)) = users w \<and>
   group_members (snd (upload_stage E w fs)) = group_members w \<and>
   next_id (snd (upload_stage E w fs)) = next_id w \<and>
   emails (snd (upload_stage E w fs)) = emails w \<and>
   console (snd (upload_stage E w fs)) = console w"
  using start_uploads_world [of E w fs]
    finish_uploads_world [of E "snd (start_uploads E w fs)" "fulfilled (fst (start_uploads E w fs))"]
  by (simp add: upload_stage_def case_prod_beta)

subsection \<open>What the insert stages change\<close>

lemma insert_announcement_world:
  "ticks (snd (insert_announcement E w p)) = ticks w \<and>
   upload_calls (snd (insert_announcement E w p)) = upload_calls w \<and>
   uploads (snd (insert_announcement E w p)) = uploads w \<and>
   announcement_files (snd (insert_announcement E w p)) = announcement_files w \<and>
   users (snd (insert_announcement E w p)) = users w \<and>
   group_members (snd (insert_announcement E w p)) = group_members w \<and>
   emails (snd (insert_announcement E w p)) = emails w \<and>
   console (snd (insert_announcement E w p)) = console w"
  by (simp add: insert_announcement_def split: option.splits)

lemma insert_announcement_Inl:
  "insert_announcement E w p = (Inl m, w') \<Longrightarrow> w' = w"
  by (auto simp: insert_announcement_def split: option.splits)

lemma insert_announcement_Inr:
  "insert_announcement E w p = (Inr a, w') \<Longrightarrow>
     a = next_id w \<and>
     announcement w' = announcement w @
       [\<lparr>ann_id = a, ann_title = ins_title p, ann_content = ins_content p,
         ann_visibility = ins_visibility p, ann_group_id = ins_group_id p,
         ann_user_id = ins_user_id p, ann_created_at = db_clock E w\<rparr>]"
  by (auto simp: insert_announcement_def split: option.splits)

lemma insert_file_world:
  "ticks (snd (insert_file E w a f)) = ticks w \<and>
   upload_calls (snd (insert_file E w a f)) = upload_calls w \<and>
   uploads (snd (insert_file E w a f)) = uploads w \<and>
   announcement (snd (insert_file E w a f)) = announcement w \<and>
   users (snd (insert_file E w a f)) = users w \<and>
   group_members (snd (insert_file E w a f)) = group_members w \<and>
   next_id (snd (insert_file E w a f)) = next_id w \<and>
   emails (snd (insert_file E w a f)) = emails w"
  by (simp add: insert_file_def insert_file_row_def log_error_def split: option.splits)

lemma insert_files_world:
  "ticks (snd (insert_files E w a fs)) = ticks w \<and>
   upload_calls (snd (insert_files E w a fs)) = upload_calls w \<and>
   uploads (snd (insert_files E w a fs)) = uploads w \<and>
   announcement (snd (insert_files E w a fs)) = announcement w \<and>
   users (snd (insert_files E w a fs)) = users w \<and>
   group_members (snd (insert_files E w a fs)) = group_members w \<and>
   next_id (snd (insert_files E w a fs)) = next_id w \<and>
   emails (snd (insert_files E w a fs)) = emails w"
proof (induction fs arbitrary: w)
  case Nil
  show ?case by simp
next
  case (Cons f fs)
  show ?case
    using Cons.IH [of "snd (insert_file E w a f)"] insert_file_world [of E w a f]
    by (simp only: insert_files_snd)
qed

lemma file_rows_stage_world:
  "ticks (snd (file_rows_stage E w a fs)) = ticks w \<and>
   upload_calls (snd (file_rows_stage E w a fs)) = upload_calls w \<and>
   uploads (snd (file_rows_stage E w a fs)) = uploads w \<and>
   announcement (snd (file_rows_stage E w a fs)) = announcement w \<and>
   users (snd (file_rows_stage E w a fs)) = users w \<and>
   group_members (snd (file_rows_stage E w a fs)) = group_members w \<and>
   next_id (snd (file_rows_stage E w a fs)) = next_id w \<and>
   emails (snd (file_rows_stage E w a fs)) = emails w"
  using insert_files_world [of E w a fs]
  by (simp add: file_rows_stage_def case_prod_beta)

text \<open>Every file row the third stage adds belongs to announcement \<open>a\<close>.\<close>

lemma insert_file_rows:
  "\<exists>rows. announcement_files (snd (insert_file E w a f)) = announcement_files w @ rows \<and>
     (\<forall>r\<in>set rows. fr_announcement_id r = a) \<and>
     (fst (insert_file E w a f) = Inr () \<longrightarrow> rows = [file_payload a f])"
  by (simp add: insert_file_def insert_file_row_def log_error_def file_payload_def
      split: option.splits)

lemma insert_files_rows:
  "\<exists>rows. announcement_files (snd (insert_files E w a fs)) = announcement_files w @ rows \<and>
     (\<forall>r\<in>set rows. fr_announcement_id r = a) \<and>
     (rejections (fst (insert_files E w a fs)) = [] \<longrightarrow> rows = map (file_payload a) fs)"
proof (induction fs arbitrary: w)
  case Nil
  show ?case by simp
next
  case (Cons f fs)
  obtain r1 where r1: "announcement_files (snd (insert_file E w a f)) = announcement_files w @ r1"
    "\<forall>r\<in>set r1. fr_announcement_id r = a"
    "fst (insert_file E w a f) = Inr () \<longrightarrow> r1 = [file_payload a f]"
    using insert_file_rows [of E w a f] by blast
  obtain r2 where r2: "announcement_files (snd (insert_files E (snd (insert_file E w a f)) a fs)) =
      announcement_files (snd (insert_file E w a f)) @ r2"
    "\<forall>r\<in>set r2. fr_announcement_id r = a"
    "rejections (fst (insert_files E (snd (insert_file E w a f)) a fs)) = [] \<longrightarrow>
       r2 = map (file_payload a) fs"
    using Cons.IH [of "snd (insert_file E w a f)"] by blast
  have "announcement_files (snd (insert_files E w a (f # fs))) = announcement_files w @ (r1 @ r2)"
    using r1(1) r2(1) by (simp only: insert_files_snd append_assoc)
  moreover have "\<forall>r\<in>set (r1 @ r2). fr_announcement_id r = a"
    using r1(2) r2(2) by auto
  moreover have "rejections (fst (insert_files E w a (f # fs))) = [] \<longrightarrow>
      r1 @ r2 = map (file_payload a) (f # fs)"
    using r1(3) r2(3) by (cases "fst (insert_file E w a f)") (auto simp: insert_files_fst simp del: insert_files.simps)
  ultimately show ?case by blast
qed

subsection \<open>The upload requests\<close>

lemma start_upload_request:
  "start_upload E w f = (Inr (n, r), w') \<Longrightarrow>
     \<exists>s. getp f ''originalname'' = JStr s \<and>
       n = takeWhile (\<lambda>c. c \<noteq> CHR ''.'') s @ ''-'' @ dec (date_now E (ticks w)) \<and>
       r = \<lparr>up_bucket = ''Uroboros'', up_path = ''announcement/'' @ n @ ''.png'',
            up_body = getp f ''buffer'', up_contentType = getp f ''mimetype''\<rparr>"
  by (auto simp: start_upload_def split_originalname_def Let_def index0_split_on
      split: sum.splits jsval.splits)

text \<open>The requests the callbacks prepare are those of the specification.\<close>

lemma start_upload_named:
  assumes "getp f ''originalname'' = JStr s"
  shows "start_upload E w f =
    (Inr (takeWhile (\<lambda>c. c \<noteq> CHR ''.'') s @ ''-'' @ dec (date_now E (ticks w)),
          \<lparr>up_bucket = ''Uroboros'',
            up_path = ''announcement/'' @ takeWhile (\<lambda>c. c \<noteq> CHR ''.'') s @ ''-'' @
                        dec (date_now E (ticks w)) @ ''.png'',
            up_body = getp f ''buffer'', up_contentType = getp f ''mimetype''\<rparr>),
     w\<lparr>ticks := Suc (ticks w)\<rparr>)"
  using assms
  by (simp add: start_upload_def split_originalname_def Let_def index0_split_on)

lemma start_upload_unnamed:
  assumes "\<forall>s. getp f ''originalname'' \<noteq> JStr s"
  shows "start_upload E w f = (Inl (TypeError ''split''), w)"
  using assms
  by (cases "getp f ''originalname''") (simp_all add: start_upload_def split_originalname_def)

lemma start_uploads_requests:
  "map snd (fulfilled (fst (start_uploads E w fs))) = spec_upload_requests E (ticks w) fs"
proof (induction fs arbitrary: w)
  case Nil
  show ?case by simp
next
  case (Cons f fs)
  show ?case
  proof (cases "\<exists>s. getp f ''originalname'' = JStr s")
    case True
    then obtain s where s: "getp f ''originalname'' = JStr s" ..
    show ?thesis
      using Cons.IH [of "w\<lparr>ticks := Suc (ticks w)\<rparr>"]
      by (simp add: start_upload_named [OF s] s case_prod_beta)
  next
    case False
    then have n: "\<forall>s. getp f ''originalname'' \<noteq> JStr s" by simp
    show ?thesis
      using Cons.IH [of w] n
      by (cases "getp f ''originalname''")
         (simp_all add: start_upload_unnamed [OF n] case_prod_beta)
  qed
qed

text \<open>Every request that was prepared reaches the store, in order.\<close>

lemma finish_upload_calls:
  "upload_calls (snd (finish_upload E w p)) = upload_calls w @ [snd p]"
  by (simp add: finish_upload_def storage_upload_def split: option.splits)

lemma finish_uploads_calls:
  "upload_calls (snd (finish_uploads E w ps)) = upload_calls w @ map snd ps"
proof (induction ps arbitrary: w)
  case Nil
  show ?case by simp
next
  case (Cons p ps)
  show ?case
    using Cons.IH [of "snd (finish_upload E w p)"] finish_upload_calls [of E w p]
    by (simp only: finish_uploads_snd list.map append_assoc append_Cons append_Nil)
qed

lemma upload_stage_calls:
  "upload_calls (snd (upload_stage E w fs)) =
     upload_calls w @ spec_upload_requests E (ticks w) fs"
proof (cases "fs = []")
  case True
  then show ?thesis by (simp add: upload_stage_def)
next
  case False
  have "upload_calls (snd (start_uploads E w fs)) = upload_calls w"
    using start_uploads_world [of E w fs] by simp
  with False show ?thesis
    using finish_uploads_calls [of E "snd (start_uploads E w fs)"
        "fulfilled (fst (start_uploads E w fs))"]
    by (simp add: upload_stage_def case_prod_beta start_uploads_requests)
qed

subsection \<open>What the notification stage changes\<close>

lemma finish_send_world:
  "ticks (finish_send E w r) = ticks w \<and>
   upload_calls (finish_send E w r) = upload_calls w \<and>
   uploads (finish_send E w r) = uploads w \<and>
   announcement (finish_send E w r) = announcement w \<and>
   announcement_files (finish_send E w r) = announcement_files w \<and>
   users (finish_send E w r) = users w \<and>
   group_members (finish_send E w r) = group_members w \<and>
   next_id (finish_send E w r) = next_id w \<and>
   emails (finish_send E w r) = emails w"
  by (simp add: finish_send_def log_error_def log_info_def split: send_answer.splits)

lemma finish_sends_world:
  "ticks (finish_sends E w rs) = ticks w \<and>
   upload_calls (finish_sends E w rs) = upload_calls w \<and>
   uploads (finish_sends E w rs) = uploads w \<and>
   announcement (finish_sends E w rs) = announcement w \<and>
   announcement_files (finish_sends E w rs) = announcement_files w \<and>
   users (finish_sends E w rs) = users w \<and>
   group_members (finish_sends E w rs) = group_members w \<and>
   next_id (finish_sends E w rs) = next_id w \<and>
   emails (finish_sends E w rs) = emails w"
proof (induction rs arbitrary: w)
  case Nil
  show ?case by simp
next
  case (Cons r rs)
  show ?case
    using Cons.IH [of "finish_send E w r"] finish_send_world [of E w r]
    by (simp only: finish_sends.simps)
qed

lemma send_emails_world:
  "ticks (send_emails E w t h addrs) = ticks w \<and>
   upload_calls (send_emails E w t h addrs) = upload_calls w \<and>
   uploads (send_emails E w t h addrs) = uploads w \<and>
   announcement (send_emails E w t h addrs) = announcement w \<and>
   announcement_files (send_emails E w t h addrs) = announcement_files w \<and>
   users (send_emails E w t h addrs) = users w \<and>
   group_members (send_emails E w t h addrs) = group_members w \<and>
   next_id (send_emails E w t h addrs) = next_id w \<and>
   emails (send_emails E w t h addrs) = emails w @ map (email_to t h) addrs"
  using finish_sends_world [of E "w\<lparr>emails := emails w @ map (email_to t h) addrs\<rparr>"
      "map (email_to t h) addrs"]
  by (simp add: send_emails_def Let_def)

lemma notify_users_world:
  "ticks (snd (notify_users E w t c fs ids)) = ticks w \<and>
   upload_calls (snd (notify_users E w t c fs ids)) = upload_calls w \<and>
   uploads (snd (notify_users E w t c fs ids)) = uploads w \<and>
   announcement (snd (notify_users E w t c fs ids)) = announcement w \<and>
   announcement_files (snd (notify_users E w t c fs ids)) = announcement_files w \<and>
   users (snd (notify_users E w t c fs ids)) = users w \<and>
   group_members (snd (notify_users E w t c fs ids)) = group_members w \<and>
   next_id (snd (notify_users E w t c fs ids)) = next_id w"
  by (simp add: notify_users_def log_error_def log_info_def send_emails_world
      split: sum.splits)

lemma sendAnnouncementEmailToUsers_world:
  "ticks (snd (sendAnnouncementEmailToUsers E w t c fs g)) = ticks w \<and>
   upload_calls (snd (sendAnnouncementEmailToUsers E w t c fs g)) = upload_calls w \<and>
   uploads (snd (sendAnnouncementEmailToUsers E w t c fs g)) = uploads w \<and>
   announcement (snd (sendAnnouncementEmailToUsers E w t c fs g)) = announcement w \<and>
   announcement_files (snd (sendAnnouncementEmailToUsers E w t c fs g)) = announcement_files w \<and>
   users (snd (sendAnnouncementEmailToUsers E w t c fs g)) = users w \<and>
   group_members (snd (sendAnnouncementEmailToUsers E w t c fs g)) = group_members w \<and>
   next_id (snd (sendAnnouncementEmailToUsers E w t c fs g)) = next_id w"
  by (simp add: sendAnnouncementEmailToUsers_def group_filter_def log_error_def
      notify_users_world split: option.splits sum.splits)

lemma notify_stage_world:
  "ticks (notify_stage E w dat fs g) = ticks w \<and>
   upload_calls (notify_stage E w dat fs g) = upload_calls w \<and>
   uploads (notify_stage E w dat fs g) = uploads w \<and>
   announcement (notify_stage E w dat fs g) = announcement w \<and>
   announcement_files (notify_stage E w dat fs g) = announcement_files w \<and>
   users (notify_stage E w dat fs g) = users w \<and>
   group_members (notify_stage E w dat fs g) = group_members w \<and>
   next_id (notify_stage E w dat fs g) = next_id w"
  using sendAnnouncementEmailToUsers_world [of E w "d_title dat" "d_content dat" fs g]
  by (cases "sendAnnouncementEmailToUsers E w (d_title dat) (d_content dat) fs g")
     (auto simp: notify_stage_def log_error_def split: option.splits)

subsection \<open>The runs of \<open>createAnnouncements\<close>\<close>

lemma createAnnouncements_runs:
  obtains
    (Upload) e fd w1 where
      "upload_stage E w (d_files dat) = ((Some e, fd), w1)"
      "createAnnouncements E w dat userId groupId = (Inl e, w1)"
  | (Insert) fd w1 m where
      "upload_stage E w (d_files dat) = ((None, fd), w1)"
      "insert_announcement E w1
         (announcement_payload (d_title dat) (d_content dat) userId groupId) = (Inl m, w1)"
      "createAnnouncements E w dat userId groupId =
         (Inl (ServiceError m), log_error ''Error inserting announcement:'' w1)"
  | (Rows) fd w1 a w2 e w3 where
      "upload_stage E w (d_files dat) = ((None, fd), w1)"
      "insert_announcement E w1
         (announcement_payload (d_title dat) (d_content dat) userId groupId) = (Inr a, w2)"
      "file_rows_stage E w2 a fd = (Some e, w3)"
      "createAnnouncements E w dat userId groupId = (Inl e, w3)"
  | (Done) fd w1 a w2 w3 where
      "upload_stage E w (d_files dat) = ((None, fd), w1)"
      "insert_announcement E w1
         (announcement_payload (d_title dat) (d_content dat) userId groupId) = (Inr a, w2)"
      "file_rows_stage E w2 a fd = (None, w3)"
      "createAnnouncements E w dat userId groupId = (Inr a, notify_stage E w3 dat fd groupId)"
proof -
  obtain r fd w1 where u: "upload_stage E w (d_files dat) = ((r, fd), w1)"
    by (metis prod.exhaust)
  show thesis
  proof (cases r)
    case (Some e)
    with u show thesis by (intro Upload [of e fd w1]) (simp_all add: createAnnouncements_def)
  next
    case None
    obtain i w2 where i: "insert_announcement E w1
        (announcement_payload (d_title dat) (d_content dat) userId groupId) = (i, w2)"
      by (metis prod.exhaust)
    show thesis
    proof (cases i)
      case (Inl m)
      with i have "w2 = w1" by (simp add: insert_announcement_Inl)
      with u None i Inl show thesis
        by (intro Insert [of fd w1 m]) (simp_all add: createAnnouncements_def)
    next
      case (Inr a)
      obtain q w3 where q: "file_rows_stage E w2 a fd = (q, w3)"
        by (metis prod.exhaust)
      show thesis
      proof (cases q)
        case (Some e)
        with u None i Inr q show thesis
          by (intro Rows [of fd w1 a w2 e w3]) (simp_all add: createAnnouncements_def)
      next
        case N: None
        with u None i Inr q show thesis
          by (intro Done [of fd w1 a w2 w3]) (simp_all add: createAnnouncements_def)
      qed
    qed
  qed
qed

lemma createAnnouncements_upload_calls:
  "upload_calls (snd (createAnnouncements E w dat userId groupId)) =
     upload_calls (snd (upload_stage E w (d_files dat)))"
proof (cases rule: createAnnouncements_runs [of E w dat userId groupId])
  case (Upload e fd w1)
  then show ?thesis by simp
next
  case (Insert fd w1 m)
  then show ?thesis by (simp add: log_error_def)
next
  case (Rows fd w1 a w2 e w3)
  then show ?thesis
    using insert_announcement_world [of E w1 "announcement_payload (d_title dat) (d_content dat) userId groupId"]
      file_rows_stage_world [of E w2 a fd]
    by simp
next
  case (Done fd w1 a w2 w3)
  then show ?thesis
    using insert_announcement_world [of E w1 "announcement_payload (d_title dat) (d_content dat) userId groupId"]
      file_rows_stage_world [of E w2 a fd] notify_stage_world [of E w3 dat fd groupId]
    by simp
qed

section \<open>The claims\<close>

lemma spec_upload_requests_of_file:
  assumes "f \<in> set fs" and "getp f ''originalname'' = JStr s"
  shows "\<exists>j. \<lparr>up_bucket = ''Uroboros'',
              up_path = ''announcement/'' @ takeWhile (\<lambda>c. c \<noteq> CHR ''.'') s @ ''-'' @
                          dec (date_now E j) @ ''.png'',
              up_body = getp f ''buffer'', up_contentType = getp f ''mimetype''\<rparr>
            \<in> set (spec_upload_requests E k fs)"
  using assms
proof (induction fs arbitrary: k)
  case Nil
  then show ?case by simp
next
  case (Cons g gs)
  show ?case
  proof (cases "f = g")
    case True
    with Cons.prems(2) show ?thesis by (intro exI [of _ k]) simp
  next
    case False
    with Cons.prems have "f \<in> set gs" by simp
    from Cons.IH [OF this Cons.prems(2)] show ?thesis
      by (cases "getp g ''originalname''") auto
  qed
qed

lemma spec_upload_requests_file:
  assumes "r \<in> set (spec_upload_requests E k fs)"
  shows "\<exists>f\<in>set fs. \<exists>s j. getp f ''originalname'' = JStr s \<and>
           up_bucket r = ''Uroboros'' \<and>
           up_path r = ''announcement/'' @ takeWhile (\<lambda>c. c \<noteq> CHR ''.'') s @ ''-'' @
                         dec (date_now E j) @ ''.png'' \<and>
           up_contentType r = getp f ''mimetype''"
  using assms
proof (induction fs arbitrary: k)
  case Nil
  then show ?case by simp
next
  case (Cons g gs)
  show ?case
  proof (cases "\<exists>s. getp g ''originalname'' = JStr s")
    case True
    then obtain s where s: "getp g ''originalname'' = JStr s" ..
    with Cons.prems have "r = \<lparr>up_bucket = ''Uroboros'',
        up_path = ''announcement/'' @ takeWhile (\<lambda>c. c \<noteq> CHR ''.'') s @ ''-'' @
                    dec (date_now E k) @ ''.png'',
        up_body = getp g ''buffer'', up_contentType = getp g ''mimetype''\<rparr> \<or>
      r \<in> set (spec_upload_requests E (Suc k) gs)"
      by simp
    then show ?thesis
    proof
      assume "r \<in> set (spec_upload_requests E (Suc k) gs)"
      from Cons.IH [OF this] show ?thesis by auto
    next
      assume "r = \<lparr>up_bucket = ''Uroboros'',
        up_path = ''announcement/'' @ takeWhile (\<lambda>c. c \<noteq> CHR ''.'') s @ ''-'' @
                    dec (date_now E k) @ ''.png'',
        up_body = getp g ''buffer'', up_contentType = getp g ''mimetype''\<rparr>"
      with s show ?thesis by auto
    qed
  next
    case False
    with Cons.prems have "r \<in> set (spec_upload_requests E k gs)"
      by (cases "getp g ''originalname''") simp_all
    from Cons.IH [OF this] show ?thesis by auto
  qed
qed

text \<open>
  C8. A call of \<open>createAnnouncements\<close> sends the object store exactly one upload request
  for each file whose original name is a string, in the order of the files, and no
  other request. The request of a file goes to the bucket \<open>Uroboros\<close>; its path is the
  fixed prefix \<open>announcement/\<close>, then the part of the original file name before its
  first dot, a hyphen, a reading of the clock, and the fixed suffix \<open>.png\<close>, whatever
  the extension or MIME type of the file; the MIME type of the file is the content
  type of the request.
\<close>

theorem upload_path_hard_coded_png:
  "upload_calls (snd (createAnnouncements E w dat userId groupId)) =
     upload_calls w @ spec_upload_requests E (ticks w) (d_files dat) \<and>
   (\<forall>f\<in>set (d_files dat). \<forall>s. getp f ''originalname'' = JStr s \<longrightarrow>
      (\<exists>j. \<lparr>up_bucket = ''Uroboros'',
              up_path = ''announcement/'' @ takeWhile (\<lambda>c. c \<noteq> CHR ''.'') s @ ''-'' @
                          dec (date_now E j) @ ''.png'',
              up_body = getp f ''buffer'', up_contentType = getp f ''mimetype''\<rparr>
            \<in> set (upload_calls (snd (createAnnouncements E w dat userId groupId))))) \<and>
   (\<forall>r\<in>set (upload_calls (snd (createAnnouncements E w dat userId groupId))).
      r \<in> set (upload_calls w) \<or>
      (\<exists>f\<in>set (d_files dat). \<exists>s j. getp f ''originalname'' = JStr s \<and>
         up_bucket r = ''Uroboros'' \<and>
         up_path r = ''announcement/'' @ takeWhile (\<lambda>c. c \<noteq> CHR ''.'') s @ ''-'' @
                       dec (date_now E j) @ ''.png'' \<and>
         up_contentType r = getp f ''mimetype''))"
proof -
  have calls: "upload_calls (snd (createAnnouncements E w dat userId groupId)) =
      upload_calls w @ spec_upload_requests E (ticks w) (d_files dat)"
    by (simp add: createAnnouncements_upload_calls upload_stage_calls)
  have each: "\<exists>j. \<lparr>up_bucket = ''Uroboros'',
        up_path = ''announcement/'' @ takeWhile (\<lambda>c. c \<noteq> CHR ''.'') s @ ''-'' @
                    dec (date_now E j) @ ''.png'',
        up_body = getp f ''buffer'', up_contentType = getp f ''mimetype''\<rparr>
      \<in> set (upload_calls (snd (createAnnouncements E w dat userId groupId)))"
    if "f \<in> set (d_files dat)" and "getp f ''originalname'' = JStr s" for f s
    using spec_upload_requests_of_file [OF that, of E "ticks w"] by (auto simp: calls)
  have only: "r \<in> set (upload_calls w) \<or>
      (\<exists>f\<in>set (d_files dat). \<exists>s j. getp f ''originalname'' = JStr s \<and>
         up_bucket r = ''Uroboros'' \<and>
         up_path r = ''announcement/'' @ takeWhile (\<lambda>c. c \<noteq> CHR ''.'') s @ ''-'' @
                       dec (date_now E j) @ ''.png'' \<and>
         up_contentType r = getp f ''mimetype'')"
    if "r \<in> set (upload_calls (snd (createAnnouncements E w dat userId groupId)))" for r
    using that spec_upload_requests_file [of r E "ticks w" "d_files dat"]
    by (auto simp: calls)
  show ?thesis
    using calls each only by blast
qed

theorem upload_path_hard_coded_png_witness:
  "upload_calls (snd (createAnnouncements env0 world0
      \<lparr>d_title = ''T'', d_content = ''C'', d_files = [photo, minutes]\<rparr> ''u1'' None)) =
     [\<lparr>up_bucket = ''Uroboros'', up_path = ''announcement/photo-1700000000000.png'',
       up_body = JBuffer [255, 216], up_contentType = JStr ''image/jpeg''\<rparr>,
      \<lparr>up_bucket = ''Uroboros'', up_path = ''announcement/minutes-1700000000001.png'',
       up_body = JBuffer [37, 80], up_contentType = JStr ''application/pdf''\<rparr>]"
  using upload_path_hard_coded_png [of env0 world0
      "\<lparr>d_title = ''T'', d_content = ''C'', d_files = [photo, minutes]\<rparr>" "''u1''" None]
  by (simp add: getp_def dec.simps digit_def env0_def world0_def photo_def minutes_def)

lemma upload_stage_rejects:
  assumes "fs \<noteq> []" and "\<exists>r\<in>set (upload_outcomes E w fs). isl r"
  shows "\<exists>e. fst (fst (upload_stage E w fs)) = Some e"
proof -
  have "rejections (upload_outcomes E w fs) \<noteq> []"
    using assms(2) by (simp add: rejections_empty)
  then show ?thesis
    using assms(1)
    by (simp add: upload_stage_def upload_outcomes_def case_prod_beta first_rejection_def
        split: list.splits)
qed

text \<open>
  C3. When a call of \<open>createAnnouncements\<close> has at least one file and at least one of
  its uploads fails, the call throws and the insert of the announcement is never
  reached: the tables \<open>announcement\<close> and \<open>announcement_files\<close> are as before the call, and
  so are the identifier counter, the emails sent and the console.
\<close>

theorem upload_failure_aborts_creation:
  assumes "d_files dat \<noteq> []"
    and "\<exists>r\<in>set (upload_outcomes E w (d_files dat)). isl r"
  shows "isl (fst (createAnnouncements E w dat userId groupId)) \<and>
         announcement (snd (createAnnouncements E w dat userId groupId)) = announcement w \<and>
         announcement_files (snd (createAnnouncements E w dat userId groupId)) =
           announcement_files w \<and>
         next_id (snd (createAnnouncements E w dat userId groupId)) = next_id w \<and>
         emails (snd (createAnnouncements E w dat userId groupId)) = emails w \<and>
         console (snd (createAnnouncements E w dat userId groupId)) = console w"
proof -
  obtain e where e: "fst (fst (upload_stage E w (d_files dat))) = Some e"
    using upload_stage_rejects [OF assms] by blast
  then have "createAnnouncements E w dat userId groupId =
      (Inl e, snd (upload_stage E w (d_files dat)))"
    by (cases rule: createAnnouncements_runs [of E w dat userId groupId]) simp_all
  then show ?thesis
    using upload_stage_world [of E w "d_files dat"] by simp
qed

theorem upload_failure_aborts_creation_witness:
  "d_files \<lparr>d_title = ''T'', d_content = ''C'', d_files = [photo]\<rparr> \<noteq> [] \<and>
   upload_outcomes env_upload_fails world0 [photo] =
     [Inl (Error ''Error uploading file: storage is full'')] \<and>
   isl (fst (createAnnouncements env_upload_fails world0
     \<lparr>d_title = ''T'', d_content = ''C'', d_files = [photo]\<rparr> ''u1'' None)) \<and>
   announcement (snd (createAnnouncements env_upload_fails world0
     \<lparr>d_title = ''T'', d_content = ''C'', d_files = [photo]\<rparr> ''u1'' None)) = [] \<and>
   announcement_files (snd (createAnnouncements env_upload_fails world0
     \<lparr>d_title = ''T'', d_content = ''C'', d_files = [photo]\<rparr> ''u1'' None)) = []"
proof -
  have o: "upload_outcomes env_upload_fails world0 [photo] =
     [Inl (Error ''Error uploading file: storage is full'')]"
    by (simp add: model_defs env_upload_fails_def env0_def world0_def photo_def)
  have "\<exists>r\<in>set (upload_outcomes env_upload_fails world0
      (d_files \<lparr>d_title = ''T'', d_content = ''C'', d_files = [photo]\<rparr>)). isl r"
    by (simp add: o)
  from upload_failure_aborts_creation [OF _ this, of "''u1''" None] o
  show ?thesis by (simp add: world0_def)
qed

lemma createAnnouncements_announcement:
  "announcement (snd (createAnnouncements E w dat userId groupId)) = announcement w \<or>
   (\<exists>a t. announcement (snd (createAnnouncements E w dat userId groupId)) =
      announcement w @
        [\<lparr>ann_id = a, ann_title = d_title dat, ann_content = d_content dat,
          ann_visibility = (if truthy groupId then Private else Public),
          ann_group_id = groupId, ann_user_id = userId, ann_created_at = t\<rparr>])"
proof (cases rule: createAnnouncements_runs [of E w dat userId groupId])
  case (Upload e fd w1)
  then show ?thesis using upload_stage_world [of E w "d_files dat"] by simp
next
  case (Insert fd w1 m)
  then show ?thesis using upload_stage_world [of E w "d_files dat"] by (simp add: log_error_def)
next
  case (Rows fd w1 a w2 e w3)
  have "announcement w3 = announcement w2"
    using Rows(3) file_rows_stage_world [of E w2 a fd] by simp
  moreover have "announcement w1 = announcement w"
    using Rows(1) upload_stage_world [of E w "d_files dat"] by simp
  ultimately show ?thesis
    using insert_announcement_Inr [OF Rows(2)] Rows(4)
    by (simp add: announcement_payload_def nullish_null_def split: option.splits)
next
  case (Done fd w1 a w2 w3)
  have "announcement w3 = announcement w2"
    using Done(3) file_rows_stage_world [of E w2 a fd] by simp
  moreover have "announcement w1 = announcement w"
    using Done(1) upload_stage_world [of E w "d_files dat"] by simp
  ultimately show ?thesis
    using insert_announcement_Inr [OF Done(2)] Done(4) notify_stage_world [of E w3 dat fd groupId]
    by (simp add: announcement_payload_def nullish_null_def split: option.splits)
qed

lemma createAnnouncements_inserted:
  assumes "fst (createAnnouncements E w dat userId groupId) = Inr a"
  shows "\<exists>t. announcement (snd (createAnnouncements E w dat userId groupId)) =
      announcement w @
        [\<lparr>ann_id = a, ann_title = d_title dat, ann_content = d_content dat,
          ann_visibility = (if truthy groupId then Private else Public),
          ann_group_id = groupId, ann_user_id = userId, ann_created_at = t\<rparr>]"
proof (cases rule: createAnnouncements_runs [of E w dat userId groupId])
  case (Upload e fd w1)
  with assms show ?thesis by simp
next
  case (Insert fd w1 m)
  with assms show ?thesis by simp
next
  case (Rows fd w1 b w2 e w3)
  with assms show ?thesis by simp
next
  case (Done fd w1 b w2 w3)
  with assms have b: "b = a" by simp
  have "announcement w3 = announcement w2"
    using Done(3) file_rows_stage_world [of E w2 b fd] by simp
  moreover have "announcement w1 = announcement w"
    using Done(1) upload_stage_world [of E w "d_files dat"] by simp
  ultimately show ?thesis
    using insert_announcement_Inr [OF Done(2)] Done(4) b
      notify_stage_world [of E w3 dat fd groupId]
    by (simp add: announcement_payload_def nullish_null_def split: option.splits)
qed

lemma or_null_not_empty: "or_null g \<noteq> Some []"
  by (cases g) (simp_all add: or_null_def truthy_def)

text \<open>
  C1. The group identifier of a call is the one a route passes: \<open>POST /api/announcements\<close>
  passes \<open>req.body.groupId || null\<close>, and \<open>POST /api/announcements/group/:groupId\<close> passes
  the path parameter, which the router never matches empty. For every such call of
  \<open>createAnnouncements\<close> the table \<open>announcement\<close> stays as it was or gets exactly one new
  row, and it gets the row whenever the call returns an identifier, which is then the
  identifier of the row. The row has the title, the content and the user of the call;
  it has visibility \<open>public\<close> and \<open>group_id\<close> \<open>null\<close> when \<open>groupId\<close> is \<open>null\<close>, and visibility
  \<open>private\<close> and \<open>group_id\<close> equal to \<open>groupId\<close> when \<open>groupId\<close> is not \<open>null\<close>.
\<close>

theorem announcement_row_visibility:
  assumes "groupId = or_null g \<or> groupId = Some p \<and> p \<noteq> []"
  shows "(announcement (snd (createAnnouncements E w dat userId groupId)) = announcement w \<or>
   (\<exists>r. announcement (snd (createAnnouncements E w dat userId groupId)) = announcement w @ [r] \<and>
      ann_title r = d_title dat \<and> ann_content r = d_content dat \<and> ann_user_id r = userId \<and>
      (groupId = None \<longrightarrow> ann_visibility r = Public \<and> ann_group_id r = None) \<and>
      (groupId \<noteq> None \<longrightarrow> ann_visibility r = Private \<and> ann_group_id r = groupId))) \<and>
   (\<forall>a. fst (createAnnouncements E w dat userId groupId) = Inr a \<longrightarrow>
      (\<exists>r. announcement (snd (createAnnouncements E w dat userId groupId)) = announcement w @ [r] \<and>
         ann_id r = a \<and>
         (groupId = None \<longrightarrow> ann_visibility r = Public \<and> ann_group_id r = None) \<and>
         (groupId \<noteq> None \<longrightarrow> ann_visibility r = Private \<and> ann_group_id r = groupId)))"
proof -
  have "groupId \<noteq> Some []"
    using assms or_null_not_empty [of g] by auto
  then have t: "truthy groupId \<longleftrightarrow> groupId \<noteq> None"
    by (cases groupId) (simp_all add: truthy_def)
  have one: "announcement (snd (createAnnouncements E w dat userId groupId)) = announcement w \<or>
   (\<exists>r. announcement (snd (createAnnouncements E w dat userId groupId)) = announcement w @ [r] \<and>
      ann_title r = d_title dat \<and> ann_content r = d_content dat \<and> ann_user_id r = userId \<and>
      (groupId = None \<longrightarrow> ann_visibility r = Public \<and> ann_group_id r = None) \<and>
      (groupId \<noteq> None \<longrightarrow> ann_visibility r = Private \<and> ann_group_id r = groupId))"
    using createAnnouncements_announcement [of E w dat userId groupId] t by auto
  have ok: "\<exists>r. announcement (snd (createAnnouncements E w dat userId groupId)) =
        announcement w @ [r] \<and> ann_id r = a \<and>
      (groupId = None \<longrightarrow> ann_visibility r = Public \<and> ann_group_id r = None) \<and>
      (groupId \<noteq> None \<longrightarrow> ann_visibility r = Private \<and> ann_group_id r = groupId)"
    if "fst (createAnnouncements E w dat userId groupId) = Inr a" for a
    using createAnnouncements_inserted [OF that] t by auto
  show ?thesis
    using one ok by blast
qed

theorem announcement_row_visibility_witness:
  "fst (createAnnouncements env0 world0 note0 ''u1'' (or_null (Some ''g1''))) = Inr 1 \<and>
   or_null (Some ''g1'') = Some ''g1'' \<and> or_null (Some '''') = None \<and> or_null None = None \<and>
   announcement (snd (createAnnouncements env0 world0 note0 ''u1'' (or_null (Some ''g1'')))) =
     [\<lparr>ann_id = 1, ann_title = ''T'', ann_content = ''C'', ann_visibility = Private,
       ann_group_id = Some ''g1'', ann_user_id = ''u1'', ann_created_at = 1700000000500\<rparr>] \<and>
   announcement (snd (createAnnouncements env0 world0 note0 ''u1'' (or_null (Some '''')))) =
     [\<lparr>ann_id = 1, ann_title = ''T'', ann_content = ''C'', ann_visibility = Public,
       ann_group_id = None, ann_user_id = ''u1'', ann_created_at = 1700000000500\<rparr>]"
  using announcement_row_visibility [of "or_null (Some ''g1'')" "Some ''g1''" "''g1''"
      env0 world0 note0 "''u1''"]
    announcement_row_visibility [of "or_null (Some '''')" "Some ''''" "''g1''"
      env0 world0 note0 "''u1''"]
  by (simp add: model_defs env0_def world0_def note0_def)

text \<open>
  Both routes reach \<open>createAnnouncements\<close> with such a group identifier, so the same
  holds of the rows the routes insert.
\<close>

lemma post_announcement_row:
  "announcement (snd (post_announcement E w req)) = announcement w \<or>
   (\<exists>r. announcement (snd (post_announcement E w req)) = announcement w @ [r] \<and>
      (or_null (rq_groupId req) = None \<longrightarrow> ann_visibility r = Public \<and> ann_group_id r = None) \<and>
      (or_null (rq_groupId req) \<noteq> None \<longrightarrow>
         ann_visibility r = Private \<and> ann_group_id r = rq_groupId req))"
proof -
  let ?dat = "\<lparr>d_title = rq_title req, d_content = rq_content req,
      d_files = map fileObj (rq_files req)\<rparr>"
  let ?g = "or_null (rq_groupId req)"
  have t: "truthy ?g \<longleftrightarrow> ?g \<noteq> None"
    using or_null_not_empty [of "rq_groupId req"] by (cases ?g) (simp_all add: truthy_def)
  have g: "?g \<noteq> None \<Longrightarrow> ?g = rq_groupId req"
    by (simp add: or_null_def split: if_splits)
  have "announcement (snd (post_announcement E w req)) =
      announcement (snd (createAnnouncements E w ?dat (rq_user_id req) ?g))"
    by (cases "createAnnouncements E w ?dat (rq_user_id req) ?g")
       (auto simp: post_announcement_def Let_def log_error_def split: sum.splits)
  then show ?thesis
    using createAnnouncements_announcement [of E w ?dat "rq_user_id req" ?g] t g by auto
qed

lemma post_group_announcement_row:
  assumes "rq_param_groupId req \<noteq> []"
  shows "announcement (snd (post_group_announcement E w req)) = announcement w \<or>
   (\<exists>r. announcement (snd (post_group_announcement E w req)) = announcement w @ [r] \<and>
      ann_visibility r = Private \<and> ann_group_id r = Some (rq_param_groupId req))"
proof (cases "select_membership E w (rq_user_id req) (rq_param_groupId req)")
  case (Inl m)
  then show ?thesis by (simp add: post_group_announcement_def Let_def)
next
  case (Inr m)
  let ?dat = "\<lparr>d_title = rq_title req, d_content = rq_content req,
      d_files = map fileObj (rq_files req)\<rparr>"
  let ?g = "Some (rq_param_groupId req)"
  have "announcement (snd (post_group_announcement E w req)) =
      announcement (snd (createAnnouncements E w ?dat (rq_user_id req) ?g))"
    using Inr
    by (cases "createAnnouncements E w ?dat (rq_user_id req) ?g")
       (auto simp: post_group_announcement_def Let_def log_error_def split: sum.splits)
  then show ?thesis
    using createAnnouncements_announcement [of E w ?dat "rq_user_id req" ?g] assms
    by (auto simp: truthy_def)
qed

subsection \<open>File objects built by the routes\<close>

lemma fileObj_originalname: "getp (fileObj f) ''originalname'' = JUndefined"
  by (simp add: fileObj_def getp_def)

lemma start_upload_fileObj: "start_upload E w (fileObj f) = (Inl (TypeError ''split''), w)"
  by (simp add: start_upload_def split_originalname_def fileObj_originalname)

lemma start_uploads_fileObj:
  "start_uploads E w (map fileObj fs) = (map (\<lambda>f. Inl (TypeError ''split'')) fs, w)"
  by (induction fs) (simp_all add: start_upload_fileObj)

lemma rejections_Inl: "rejections (map (\<lambda>f. Inl e) fs) = map (\<lambda>f. e) fs"
  by (induction fs) simp_all

lemma fulfilled_Inl: "fulfilled (map (\<lambda>f. Inl e) fs) = []"
  by (induction fs) simp_all

lemma upload_stage_fileObj:
  assumes "fs \<noteq> []"
  shows "upload_stage E w (map fileObj fs) = ((Some (TypeError ''split''), []), w)"
proof -
  have "first_rejection (map (\<lambda>f. TypeError ''split'') fs @ es) = Some (TypeError ''split'')"
    for es
    using assms by (cases fs) (simp_all add: first_rejection_def)
  then show ?thesis
    using assms
    by (simp add: upload_stage_def start_uploads_fileObj rejections_Inl fulfilled_Inl)
qed

lemma createAnnouncements_fileObj:
  "fs \<noteq> [] \<Longrightarrow>
     createAnnouncements E w \<lparr>d_title = t, d_content = c, d_files = map fileObj fs\<rparr> u g =
       (Inl (TypeError ''split''), w)"
  by (simp add: createAnnouncements_def upload_stage_fileObj)

text \<open>
  C2, as amended. The object a route builds from an uploaded file has the properties
  \<open>name\<close>, \<open>type\<close>, \<open>size\<close>, \<open>arrayBuffer\<close> and \<open>stream\<close> and no others, so
  \<open>file.originalname\<close> reads \<open>undefined\<close> and \<open>createAnnouncements\<close> throws a \<open>TypeError\<close>
  before any upload or insert. A request with at least one file to
  \<open>POST /api/announcements\<close> is therefore answered 500, and so is one to
  \<open>POST /api/announcements/group/:groupId\<close> when the membership lookup finds the
  caller's row; when that lookup fails the answer is 403. In every case the object
  store and the tables are as before, and no email is sent.
\<close>

theorem file_request_never_succeeds:
  assumes "rq_files req \<noteq> []"
  shows "(\<forall>f\<in>set (rq_files req).
            map fst (fileObj f) = [''name'', ''type'', ''size'', ''arrayBuffer'', ''stream''] \<and>
            getp (fileObj f) ''originalname'' = JUndefined) \<and>
         post_announcement E w req =
           (failed ''Failed to create announcement'' (TypeError ''split''),
            log_error ''Error creating announcement:'' w) \<and>
         rs_status (fst (post_announcement E w req)) = 500 \<and>
         (\<forall>m. select_membership E w (rq_user_id req) (rq_param_groupId req) = Inr m \<longrightarrow>
            post_group_announcement E w req =
              (failed ''Failed to create group announcement'' (TypeError ''split''),
               log_error ''Error creating group announcement:'' w) \<and>
            rs_status (fst (post_group_announcement E w req)) = 500) \<and>
         (\<forall>m. select_membership E w (rq_user_id req) (rq_param_groupId req) = Inl m \<longrightarrow>
            post_group_announcement E w req = (forbidden, w) \<and>
            rs_status (fst (post_group_announcement E w req)) = 403) \<and>
         uploads (snd (post_announcement E w req)) = uploads w \<and>
         announcement (snd (post_announcement E w req)) = announcement w \<and>
         announcement_files (snd (post_announcement E w req)) = announcement_files w \<and>
         emails (snd (post_announcement E w req)) = emails w \<and>
         uploads (snd (post_group_announcement E w req)) = uploads w \<and>
         announcement (snd (post_group_announcement E w req)) = announcement w \<and>
         announcement_files (snd (post_group_announcement E w req)) = announcement_files w \<and>
         emails (snd (post_group_announcement E w req)) = emails w"
proof -
  have objs: "\<forall>f\<in>set (rq_files req).
      map fst (fileObj f) = [''name'', ''type'', ''size'', ''arrayBuffer'', ''stream''] \<and>
      getp (fileObj f) ''originalname'' = JUndefined"
    by (simp add: fileObj_def getp_def)
  have root: "post_announcement E w req =
      (failed ''Failed to create announcement'' (TypeError ''split''),
       log_error ''Error creating announcement:'' w)"
    using assms by (simp add: post_announcement_def Let_def createAnnouncements_fileObj)
  have grp_in: "post_group_announcement E w req =
      (failed ''Failed to create group announcement'' (TypeError ''split''),
       log_error ''Error creating group announcement:'' w)"
    if "select_membership E w (rq_user_id req) (rq_param_groupId req) = Inr m" for m
    using assms that by (simp add: post_group_announcement_def Let_def createAnnouncements_fileObj)
  have grp_out: "post_group_announcement E w req = (forbidden, w)"
    if "select_membership E w (rq_user_id req) (rq_param_groupId req) = Inl m" for m
    using that by (simp add: post_group_announcement_def Let_def)
  have grp_world: "uploads (snd (post_group_announcement E w req)) = uploads w \<and>
      announcement (snd (post_group_announcement E w req)) = announcement w \<and>
      announcement_files (snd (post_group_announcement E w req)) = announcement_files w \<and>
      emails (snd (post_group_announcement E w req)) = emails w"
    using grp_in grp_out
    by (cases "select_membership E w (rq_user_id req) (rq_param_groupId req)")
       (simp_all add: log_error_def)
  show ?thesis
    using objs root grp_in grp_out grp_world
    by (simp add: failed_def forbidden_def log_error_def)
qed

theorem file_request_never_succeeds_witness:
  "rq_files request0 \<noteq> [] \<and>
   getp (fileObj upload0) ''originalname'' = JUndefined \<and>
   rs_status (fst (post_announcement env0 world_member request0)) = 500 \<and>
   rs_error (fst (post_announcement env0 world_member request0)) = Some ''split'' \<and>
   select_membership env0 world_member (rq_user_id request0) (rq_param_groupId request0) =
     Inr \<lparr>gm_user_id = ''u1'', gm_group_id = ''g1''\<rparr> \<and>
   rs_status (fst (post_group_announcement env0 world_member request0)) = 500 \<and>
   announcement (snd (post_group_announcement env0 world_member request0)) = [] \<and>
   uploads (snd (post_group_announcement env0 world_member request0)) = []"
proof -
  have f: "rq_files request0 \<noteq> []" by (simp add: request0_def)
  have m: "select_membership env0 world_member (rq_user_id request0) (rq_param_groupId request0) =
     Inr \<lparr>gm_user_id = ''u1'', gm_group_id = ''g1''\<rparr>"
    by (simp add: select_membership_def env0_def world_member_def world0_def request0_def)
  from file_request_never_succeeds [OF f, of env0 world_member] m f
  show ?thesis
    by (simp add: failed_def log_error_def fileObj_originalname world_member_def world0_def
        request0_def)
qed

text \<open>
  The claim as it is written fails on the group route: a caller who is not a member of
  the group and sends a file is answered 403, not 500.
\<close>

theorem file_request_never_succeeds_counterexample:
  "rq_files request0 \<noteq> [] \<and>
   rs_status (fst (post_group_announcement env0 world0 request0)) = 403 \<and>
   (403 :: nat) \<noteq> 500"
  by (simp add: model_defs env0_def world0_def request0_def upload0_def)

text \<open>
  C6. When the caller has no row in \<open>group_members\<close> for the group of the path, the
  group route answers 403 and the world is exactly as before: \<open>createAnnouncements\<close>
  is not called, nothing is uploaded, inserted, sent or logged.
\<close>

theorem non_member_forbidden:
  assumes "\<forall>m\<in>set (group_members w).
             \<not> (gm_user_id m = rq_user_id req \<and> gm_group_id m = rq_param_groupId req)"
  shows "post_group_announcement E w req = (forbidden, w) \<and> rs_status forbidden = 403"
proof -
  have "filter (\<lambda>m. gm_user_id m = rq_user_id req \<and> gm_group_id m = rq_param_groupId req)
      (group_members w) = []"
    using assms by (simp add: filter_empty_conv)
  then have "\<exists>m. select_membership E w (rq_user_id req) (rq_param_groupId req) = Inl m"
    by (simp add: select_membership_def split: option.splits)
  then show ?thesis
    by (auto simp: post_group_announcement_def Let_def forbidden_def)
qed

theorem non_member_forbidden_witness:
  "group_members world_users =
     [\<lparr>gm_user_id = ''u1'', gm_group_id = ''g1''\<rparr>,
      \<lparr>gm_user_id = ''u3'', gm_group_id = ''g1''\<rparr>,
      \<lparr>gm_user_id = ''u4'', gm_group_id = ''g1''\<rparr>] \<and>
   rq_user_id request_outsider = ''u7'' \<and> rq_param_groupId request_outsider = ''g1'' \<and>
   post_group_announcement env0 world_users request_outsider = (forbidden, world_users) \<and>
   rs_status forbidden = 403"
proof -
  have "\<forall>m\<in>set (group_members world_users).
      \<not> (gm_user_id m = rq_user_id request_outsider \<and>
         gm_group_id m = rq_param_groupId request_outsider)"
    by (simp add: world_users_def world0_def request_outsider_def)
  from non_member_forbidden [OF this, of env0] show ?thesis
    by (simp add: world_users_def world0_def request_outsider_def)
qed

text \<open>
  C10. When the membership lookup of the group route itself fails, whatever rows the
  table holds, the route answers 403 and not 500, and the world is exactly as before.
\<close>

theorem membership_query_failure_forbidden:
  assumes "membership_error E w (rq_user_id req) (rq_param_groupId req) = Some m"
  shows "post_group_announcement E w req = (forbidden, w) \<and> rs_status forbidden = 403"
  using assms
  by (simp add: post_group_announcement_def Let_def select_membership_def forbidden_def)

theorem membership_query_failure_forbidden_witness:
  "membership_error env_membership_fails world_member (rq_user_id request0)
     (rq_param_groupId request0) = Some ''connection reset'' \<and>
   group_members world_member = [\<lparr>gm_user_id = ''u1'', gm_group_id = ''g1''\<rparr>] \<and>
   rq_user_id request0 = ''u1'' \<and> rq_param_groupId request0 = ''g1'' \<and>
   post_group_announcement env_membership_fails world_member request0 =
     (forbidden, world_member) \<and>
   rs_status forbidden = 403"
proof -
  have e: "membership_error env_membership_fails world_member (rq_user_id request0)
     (rq_param_groupId request0) = Some ''connection reset''"
    by (simp add: env_membership_fails_def env0_def)
  from membership_query_failure_forbidden [OF e] e show ?thesis
    by (simp add: world_member_def world0_def request0_def)
qed

subsection \<open>The listing\<close>

lemma join_row_row: "ls_row (join_row w r) = r"
  by (simp add: join_row_def)

lemma newest_first:
  assumes "i < j" and "j < length rs"
  shows "ann_created_at (sort_key (\<lambda>r. - ann_created_at r) rs ! j)
           \<le> ann_created_at (sort_key (\<lambda>r. - ann_created_at r) rs ! i)"
proof -
  let ?s = "sort_key (\<lambda>r. - ann_created_at r) rs"
  have "sorted (map (\<lambda>r. - ann_created_at r) ?s)"
    by (rule sorted_sort_key)
  moreover have "i \<le> j" "j < length (map (\<lambda>r. - ann_created_at r) ?s)"
    using assms by simp_all
  ultimately have "map (\<lambda>r. - ann_created_at r) ?s ! i \<le> map (\<lambda>r. - ann_created_at r) ?s ! j"
    by (simp only: sorted_iff_nth_mono)
  then show ?thesis
    using assms by simp
qed

lemma join_row_user:
  "(\<forall>n e. ls_user (join_row w r) = Some (n, e) \<longrightarrow>
      (\<exists>u\<in>set (users w). usr_id u = ann_user_id r \<and> usr_name u = n \<and> usr_email u = e)) \<and>
   (ls_user (join_row w r) = None \<longrightarrow> (\<forall>u\<in>set (users w). usr_id u \<noteq> ann_user_id r))"
proof (cases "filter (\<lambda>u. usr_id u = ann_user_id r) (users w)")
  case Nil
  then show ?thesis by (simp add: join_row_def filter_empty_conv)
next
  case (Cons u us)
  then have "u \<in> set (filter (\<lambda>u. usr_id u = ann_user_id r) (users w))" by simp
  then have "u \<in> set (users w)" "usr_id u = ann_user_id r" by simp_all
  with Cons show ?thesis by (auto simp: join_row_def)
qed

lemma get_announcements_200:
  assumes "get_announcements E w = (resp, w')" and "rs_status resp = 200"
  shows "resp = \<lparr>rs_status = 200, rs_success = True,
           rs_data = Listing (map (join_row w) (sort_key (\<lambda>r. - ann_created_at r)
             (filter (\<lambda>r. ann_visibility r = Public) (announcement w)))),
           rs_message = None, rs_error = None\<rparr> \<and> w' = w"
proof (cases "listing_error E w")
  case None
  with assms(1) show ?thesis
    by (auto simp add: get_announcements_def select_public_def)
next
  case (Some m)
  with assms(1) have "rs_status resp = 500"
    by (auto simp add: get_announcements_def select_public_def failed_def)
  with assms(2) show ?thesis by simp
qed

lemma join_rows_image:
  "ls_row ` set (map (join_row w) (sort_key k (filter P rs))) = {r \<in> set rs. P r}"
  by (auto simp: join_row_row image_image)

lemma join_row_each:
  assumes "x \<in> set (map (join_row w) (sort_key k (filter (\<lambda>r. ann_visibility r = Public) rs)))"
  shows "ann_visibility (ls_row x) = Public \<and>
      ls_files x =
        filter (\<lambda>f. fr_announcement_id f = ann_id (ls_row x)) (announcement_files w) \<and>
      (\<forall>n e. ls_user x = Some (n, e) \<longrightarrow>
         (\<exists>u\<in>set (users w). usr_id u = ann_user_id (ls_row x) \<and>
            usr_name u = n \<and> usr_email u = e)) \<and>
      (ls_user x = None \<longrightarrow> (\<forall>u\<in>set (users w). usr_id u \<noteq> ann_user_id (ls_row x)))"
proof -
  from assms obtain r where r: "x = join_row w r" "ann_visibility r = Public"
    by auto
  have f: "ls_files (join_row w r) =
      filter (\<lambda>f. fr_announcement_id f = ann_id r) (announcement_files w)"
    by (simp add: join_row_def)
  show ?thesis
    unfolding r(1) join_row_row using r(2) f join_row_user [of w r] by blast
qed

lemma join_rows_order:
  assumes "i < j" and "j < length (map (join_row w) (sort_key (\<lambda>r. - ann_created_at r) rs))"
  shows "ann_created_at (ls_row (map (join_row w) (sort_key (\<lambda>r. - ann_created_at r) rs) ! j))
    \<le> ann_created_at (ls_row (map (join_row w) (sort_key (\<lambda>r. - ann_created_at r) rs) ! i))"
proof -
  have "j < length rs" "i < length (sort_key (\<lambda>r. - ann_created_at r) rs)"
    "j < length (sort_key (\<lambda>r. - ann_created_at r) rs)"
    using assms by simp_all
  with assms(1) newest_first [of i j rs] show ?thesis
    by (simp add: join_row_row)
qed

text \<open>
  C7. A response of \<open>GET /api/announcements\<close> with status 200 lists exactly the rows of
  \<open>announcement\<close> whose visibility is \<open>public\<close>, each with the file rows that reference
  it and with the name and email of the user who wrote it, and the rows come newest
  first: no row is created later than a row listed before it. The request changes
  nothing.
\<close>

theorem listing_public_newest_first:
  assumes "get_announcements E w = (resp, w')" and "rs_status resp = 200"
  shows "\<exists>rows. rs_data resp = Listing rows \<and> w' = w \<and>
           map ls_row rows =
             sort_key (\<lambda>r. - ann_created_at r)
               (filter (\<lambda>r. ann_visibility r = Public) (announcement w)) \<and>
           ls_row ` set rows = {r \<in> set (announcement w). ann_visibility r = Public} \<and>
           (\<forall>x\<in>set rows.
              ann_visibility (ls_row x) = Public \<and>
              ls_files x =
                filter (\<lambda>f. fr_announcement_id f = ann_id (ls_row x)) (announcement_files w) \<and>
              (\<forall>n e. ls_user x = Some (n, e) \<longrightarrow>
                 (\<exists>u\<in>set (users w). usr_id u = ann_user_id (ls_row x) \<and>
                    usr_name u = n \<and> usr_email u = e)) \<and>
              (ls_user x = None \<longrightarrow> (\<forall>u\<in>set (users w). usr_id u \<noteq> ann_user_id (ls_row x)))) \<and>
           (\<forall>i j. i < j \<and> j < length rows \<longrightarrow>
              ann_created_at (ls_row (rows ! j)) \<le> ann_created_at (ls_row (rows ! i)))"
proof -
  let ?rows = "map (join_row w) (sort_key (\<lambda>r. - ann_created_at r)
      (filter (\<lambda>r. ann_visibility r = Public) (announcement w)))"
  have resp: "rs_data resp = Listing ?rows" "w' = w"
    using get_announcements_200 [OF assms] by simp_all
  show ?thesis
  proof (intro exI conjI)
    show "rs_data resp = Listing ?rows" by (rule resp(1))
    show "w' = w" by (rule resp(2))
    show "map ls_row ?rows = sort_key (\<lambda>r. - ann_created_at r)
        (filter (\<lambda>r. ann_visibility r = Public) (announcement w))"
      by (simp add: comp_def join_row_row)
    show "ls_row ` set ?rows = {r \<in> set (announcement w). ann_visibility r = Public}"
      by (rule join_rows_image)
    show "\<forall>x\<in>set ?rows.
        ann_visibility (ls_row x) = Public \<and>
        ls_files x =
          filter (\<lambda>f. fr_announcement_id f = ann_id (ls_row x)) (announcement_files w) \<and>
        (\<forall>n e. ls_user x = Some (n, e) \<longrightarrow>
           (\<exists>u\<in>set (users w). usr_id u = ann_user_id (ls_row x) \<and>
              usr_name u = n \<and> usr_email u = e)) \<and>
        (ls_user x = None \<longrightarrow> (\<forall>u\<in>set (users w). usr_id u \<noteq> ann_user_id (ls_row x)))"
      using join_row_each [of _ w] by blast
    show "\<forall>i j. i < j \<and> j < length ?rows \<longrightarrow>
        ann_created_at (ls_row (?rows ! j)) \<le> ann_created_at (ls_row (?rows ! i))"
      using join_rows_order [of _ _ w] by blast
  qed
qed

theorem listing_public_newest_first_witness:
  "rs_status (fst (get_announcements env0 world_listing)) = 200 \<and>
   (\<exists>rows. rs_data (fst (get_announcements env0 world_listing)) = Listing rows \<and>
      map (\<lambda>x. (ann_id (ls_row x), ann_visibility (ls_row x), ann_created_at (ls_row x),
                 map fr_url (ls_files x), ls_user x)) rows =
        [(3, Public, 30, [''announcement/p-1.png''], None),
         (1, Public, 10, [], Some (''Ana'', ''ana@example.org''))])"
proof -
  have g: "get_announcements env0 world_listing =
      (fst (get_announcements env0 world_listing), snd (get_announcements env0 world_listing))"
    by simp
  have s: "rs_status (fst (get_announcements env0 world_listing)) = 200"
    by (simp add: get_announcements_def select_public_def env0_def)
  have r: "rs_data (fst (get_announcements env0 world_listing)) =
      Listing (map (join_row world_listing) (sort_key (\<lambda>r. - ann_created_at r)
         (filter (\<lambda>r. ann_visibility r = Public) (announcement world_listing))))"
    by (simp add: get_announcements_def select_public_def env0_def)
  have v: "map (\<lambda>x. (ann_id (ls_row x), ann_visibility (ls_row x), ann_created_at (ls_row x),
                 map fr_url (ls_files x), ls_user x))
        (map (join_row world_listing) (sort_key (\<lambda>r. - ann_created_at r)
         (filter (\<lambda>r. ann_visibility r = Public) (announcement world_listing)))) =
        [(3, Public, 30, [''announcement/p-1.png''], None),
         (1, Public, 10, [], Some (''Ana'', ''ana@example.org''))]"
    by (simp add: join_row_def world_listing_def world0_def)
  from listing_public_newest_first [OF g s] have
    "\<exists>rows. rs_data (fst (get_announcements env0 world_listing)) = Listing rows"
    by (elim exE conjE) (rule exI)
  with r v s show ?thesis by simp
qed

subsection \<open>Counting the files\<close>

lemma length_start_uploads: "length (fst (start_uploads E w fs)) = length fs"
  by (induction fs arbitrary: w) (simp_all add: case_prod_beta)

lemma length_finish_uploads: "length (fst (finish_uploads E w ps)) = length ps"
  by (induction ps arbitrary: w) (simp_all add: case_prod_beta)

lemma upload_stage_all:
  assumes "upload_stage E w fs = ((None, fd), w1)"
  shows "length fd = length fs"
proof (cases "fs = []")
  case True
  with assms show ?thesis by (simp add: upload_stage_def)
next
  case False
  let ?started = "fst (start_uploads E w fs)"
  let ?settled = "fst (finish_uploads E (snd (start_uploads E w fs)) (fulfilled ?started))"
  from assms False have fd: "fd = fulfilled ?settled"
    and none: "first_rejection (rejections ?started @ rejections ?settled) = None"
    by (simp_all add: upload_stage_def case_prod_beta)
  from none have "rejections ?started = []" "rejections ?settled = []"
    by (simp_all add: first_rejection_None)
  then have "length (fulfilled ?started) = length ?started"
    "length (fulfilled ?settled) = length ?settled"
    by (simp_all add: length_fulfilled)
  with fd show ?thesis
    by (simp add: length_start_uploads length_finish_uploads)
qed

lemma file_rows_stage_all:
  assumes "file_rows_stage E w a fd = (None, w')"
  shows "announcement_files w' = announcement_files w @ map (file_payload a) fd"
proof (cases "fd = []")
  case True
  with assms show ?thesis by (simp add: file_rows_stage_def)
next
  case False
  with assms have "rejections (fst (insert_files E w a fd)) = []"
    and "w' = snd (insert_files E w a fd)"
    by (simp_all add: file_rows_stage_def case_prod_beta first_rejection_None)
  with insert_files_rows [of E w a fd] show ?thesis by auto
qed

text \<open>
  C9. When a call of \<open>createAnnouncements\<close> with \<open>N\<close> files has every upload, the insert
  of the announcement and every insert of a file row succeed, the call returns the
  identifier \<open>a\<close> of the new announcement row and adds exactly \<open>N\<close> rows to
  \<open>announcement_files\<close>, one for each file, all with \<open>announcement_id\<close> equal to \<open>a\<close>. The
  file rows are inserted into a world that already holds the announcement row \<open>a\<close>
  and holds none of them yet, and if no file row referenced a missing announcement
  before the call then none does after it.
\<close>

theorem file_rows_follow_announcement:
  assumes up: "upload_stage E w (d_files dat) = ((None, fileData), w1)"
    and ins: "insert_announcement E w1
        (announcement_payload (d_title dat) (d_content dat) userId groupId) = (Inr a, w2)"
    and rows: "file_rows_stage E w2 a fileData = (None, w3)"
  shows "fst (createAnnouncements E w dat userId groupId) = Inr a \<and>
         length fileData = length (d_files dat) \<and>
         announcement_files (snd (createAnnouncements E w dat userId groupId)) =
           announcement_files w @ map (file_payload a) fileData \<and>
         (\<forall>r\<in>set (map (file_payload a) fileData). fr_announcement_id r = a) \<and>
         announcement_files w2 = announcement_files w \<and>
         (\<exists>r\<in>set (announcement w2). ann_id r = a) \<and>
         announcement (snd (createAnnouncements E w dat userId groupId)) = announcement w2 \<and>
         (references_ok w \<longrightarrow> references_ok (snd (createAnnouncements E w dat userId groupId)))"
proof -
  let ?w' = "snd (createAnnouncements E w dat userId groupId)"
  have run: "createAnnouncements E w dat userId groupId =
      (Inr a, notify_stage E w3 dat fileData groupId)"
    using up ins rows by (simp add: createAnnouncements_def)
  have n: "length fileData = length (d_files dat)"
    using up by (rule upload_stage_all)
  have f1: "announcement_files w1 = announcement_files w" "announcement w1 = announcement w"
    using up upload_stage_world [of E w "d_files dat"] by simp_all
  have f2: "announcement_files w2 = announcement_files w1"
    using ins insert_announcement_world [of E w1
        "announcement_payload (d_title dat) (d_content dat) userId groupId"] by simp
  have a2: "\<exists>r\<in>set (announcement w2). ann_id r = a"
    "set (announcement w) \<subseteq> set (announcement w2)"
    using insert_announcement_Inr [OF ins] f1(2) by auto
  have f3: "announcement_files w3 = announcement_files w2 @ map (file_payload a) fileData"
    using rows by (rule file_rows_stage_all)
  have a3: "announcement w3 = announcement w2"
    using rows file_rows_stage_world [of E w2 a fileData] by simp
  have f4: "announcement_files ?w' = announcement_files w3" "announcement ?w' = announcement w3"
    using run notify_stage_world [of E w3 dat fileData groupId] by simp_all
  have each: "\<forall>r\<in>set (map (file_payload a) fileData). fr_announcement_id r = a"
    by (simp add: file_payload_def)
  have files: "announcement_files ?w' = announcement_files w @ map (file_payload a) fileData"
    using f1(1) f2 f3 f4(1) by simp
  have anns: "announcement ?w' = announcement w2"
    using a3 f4(2) by simp
  have inv: "references_ok ?w'" if "references_ok w"
    unfolding references_ok_def
  proof
    fix f
    assume "f \<in> set (announcement_files ?w')"
    then have "f \<in> set (announcement_files w) \<or> fr_announcement_id f = a"
      using files each by auto
    then show "\<exists>r\<in>set (announcement ?w'). ann_id r = fr_announcement_id f"
    proof
      assume "f \<in> set (announcement_files w)"
      with that obtain r where "r \<in> set (announcement w)" "ann_id r = fr_announcement_id f"
        unfolding references_ok_def by blast
      with a2(2) anns show ?thesis by auto
    next
      assume "fr_announcement_id f = a"
      with a2(1) anns show ?thesis by simp
    qed
  qed
  show ?thesis
    using run n files each f1(1) f2 a2(1) anns inv by simp
qed

theorem file_rows_follow_announcement_witness:
  "fst (createAnnouncements env0 world0
      \<lparr>d_title = ''T'', d_content = ''C'', d_files = [photo, photo]\<rparr> ''u1'' None) = Inr 1 \<and>
   map fr_announcement_id (announcement_files (snd (createAnnouncements env0 world0
      \<lparr>d_title = ''T'', d_content = ''C'', d_files = [photo, photo]\<rparr> ''u1'' None))) = [1, 1] \<and>
   map ann_id (announcement (snd (createAnnouncements env0 world0
      \<lparr>d_title = ''T'', d_content = ''C'', d_files = [photo, photo]\<rparr> ''u1'' None))) = [1]"
proof -
  let ?dat = "\<lparr>d_title = ''T'', d_content = ''C'', d_files = [photo, photo]\<rparr>"
  let ?fd = "[\<lparr>fd_url = ''announcement/photo-1700000000000.png'',
               fd_name = ''photo-1700000000000'', fd_type = JStr ''image/jpeg''\<rparr>,
             \<lparr>fd_url = ''announcement/photo-1700000000001.png'',
               fd_name = ''photo-1700000000001'', fd_type = JStr ''image/jpeg''\<rparr>]"
  let ?w1 = "snd (upload_stage env0 world0 (d_files ?dat))"
  let ?w2 = "snd (insert_announcement env0 ?w1
      (announcement_payload (d_title ?dat) (d_content ?dat) ''u1'' None))"
  let ?w3 = "snd (file_rows_stage env0 ?w2 1 ?fd)"
  have up: "upload_stage env0 world0 (d_files ?dat) = ((None, ?fd), ?w1)"
    by (simp add: model_defs env0_def world0_def photo_def)
  have ins: "insert_announcement env0 ?w1
      (announcement_payload (d_title ?dat) (d_content ?dat) ''u1'' None) = (Inr 1, ?w2)"
    by (simp add: model_defs env0_def world0_def photo_def)
  have rows: "file_rows_stage env0 ?w2 1 ?fd = (None, ?w3)"
    by (simp add: model_defs env0_def world0_def photo_def)
  have w2: "announcement ?w2 =
      [\<lparr>ann_id = 1, ann_title = ''T'', ann_content = ''C'', ann_visibility = Public,
        ann_group_id = None, ann_user_id = ''u1'', ann_created_at = 1700000000500\<rparr>]"
    by (simp add: model_defs env0_def world0_def photo_def)
  from file_rows_follow_announcement [OF up ins rows] w2 show ?thesis
    by (simp add: file_payload_def world0_def)
qed

subsection \<open>The runs of the notification stage\<close>

lemma finish_send_console:
  "console (finish_send E w r) = console w @ [send_log (r, send_answer E w r)]"
  by (cases "send_answer E w r") (simp_all add: finish_send_def log_error_def log_info_def)

lemma finish_sends_console:
  "console (finish_sends E w rs) = console w @ map send_log (zip rs (send_outcomes E w rs))"
proof (induction rs arbitrary: w)
  case Nil
  show ?case by simp
next
  case (Cons r rs)
  show ?case
    using Cons.IH [of "finish_send E w r"] by (simp add: finish_send_console)
qed

lemma send_emails_console:
  "console (send_emails E w t h addrs) =
     console w @ map send_log (zip (map (email_to t h) addrs)
       (send_outcomes E (w\<lparr>emails := emails w @ map (email_to t h) addrs\<rparr>)
          (map (email_to t h) addrs)))"
  by (simp add: send_emails_def Let_def finish_sends_console)

lemma length_send_outcomes: "length (send_outcomes E w rs) = length rs"
  by (induction rs arbitrary: w) simp_all

lemma notify_stage_group_error:
  assumes "groupId = Some g" and "g \<noteq> []" and "select_group_members E w g = Inl m"
  shows "notify_stage E w dat fs groupId = log_error ''Error fetching group members:'' w"
  using assms
  by (simp add: notify_stage_def sendAnnouncementEmailToUsers_def group_filter_def)


lemma notify_stage_users_error:
  assumes "group_filter E w groupId = Inr ids" and "select_users E w ids = Inl m"
  shows "notify_stage E w dat fs groupId =
           log_error ''Error fetching users for email notifications:'' w"
  using assms
  by (simp add: notify_stage_def sendAnnouncementEmailToUsers_def notify_users_def)


lemma notify_stage_render_error:
  assumes "group_filter E w groupId = Inr ids" and "select_users E w ids = Inr addrs"
    and "addrs \<noteq> []" and "createEmailHtml E (d_title dat) (d_content dat) fs = Inl e"
  shows "notify_stage E w dat fs groupId = log_error ''Error sending announcement emails:'' w"
  using assms
  by (simp add: notify_stage_def sendAnnouncementEmailToUsers_def notify_users_def)

lemma notify_stage_sends:
  assumes "group_filter E w groupId = Inr ids" and "select_users E w ids = Inr addrs"
    and "addrs \<noteq> []" and "createEmailHtml E (d_title dat) (d_content dat) fs = Inr h"
  shows "notify_stage E w dat fs groupId = send_emails E w (d_title dat) h addrs"
  using assms
  by (simp add: notify_stage_def sendAnnouncementEmailToUsers_def notify_users_def)



subsection \<open>The audience\<close>






text \<open>The state in which the notification stage starts, once the rows are stored.\<close>

lemma persisted_world:
  assumes "upload_stage E w (d_files dat) = ((None, fileData), w1)"
    and "insert_announcement E w1
        (announcement_payload (d_title dat) (d_content dat) userId groupId) = (Inr a, w2)"
    and "file_rows_stage E w2 a fileData = (None, w3)"
  shows "createAnnouncements E w dat userId groupId =
           (Inr a, notify_stage E w3 dat fileData groupId)"
    and "users w3 = users w" and "group_members w3 = group_members w"
    and "emails w3 = emails w"
proof -
  show "createAnnouncements E w dat userId groupId =
      (Inr a, notify_stage E w3 dat fileData groupId)"
    using assms by (simp add: createAnnouncements_def)
  have 1: "users w1 = users w \<and> group_members w1 = group_members w \<and> emails w1 = emails w"
    using assms(1) upload_stage_world [of E w "d_files dat"] by simp
  have 2: "users w2 = users w1 \<and> group_members w2 = group_members w1 \<and> emails w2 = emails w1"
    using assms(2) insert_announcement_world [of E w1
        "announcement_payload (d_title dat) (d_content dat) userId groupId"] by simp
  have 3: "users w3 = users w2 \<and> group_members w3 = group_members w2 \<and> emails w3 = emails w2"
    using assms(3) file_rows_stage_world [of E w2 a fileData] by simp
  show "users w3 = users w" "group_members w3 = group_members w" "emails w3 = emails w"
    using 1 2 3 by simp_all
qed



subsection \<open>Rendering the email\<close>








subsection \<open>What the notification stage cannot undo\<close>

text \<open>
  Once the announcement row and the file rows of a call are stored, the call returns
  the identifier of the announcement whatever happens in the notification stage, and
  that stage leaves the tables and the object store as they are. A failure of the
  group-members query, of the users query, or an error thrown while the email is
  rendered is written to the console as an error and no email is sent. When the
  audience is resolved, a send request is issued to every recipient whatever the
  email client answers to the others, and the console gets one line for each
  recipient in turn: an error line where the promise of the send rejected.
\<close>

lemma notification_stage_contained:
  assumes up: "upload_stage E w (d_files dat) = ((None, fileData), w1)"
    and ins: "insert_announcement E w1
        (announcement_payload (d_title dat) (d_content dat) userId groupId) = (Inr a, w2)"
    and rows: "file_rows_stage E w2 a fileData = (None, w3)"
  shows "fst (createAnnouncements E w dat userId groupId) = Inr a \<and>
         announcement (snd (createAnnouncements E w dat userId groupId)) = announcement w3 \<and>
         announcement_files (snd (createAnnouncements E w dat userId groupId)) =
           announcement_files w3 \<and>
         uploads (snd (createAnnouncements E w dat userId groupId)) = uploads w3 \<and>
         (\<forall>g m. groupId = Some g \<and> g \<noteq> [] \<and> select_group_members E w3 g = Inl m \<longrightarrow>
            console (snd (createAnnouncements E w dat userId groupId)) =
              console w3 @ [LogError ''Error fetching group members:''] \<and>
            emails (snd (createAnnouncements E w dat userId groupId)) = emails w3) \<and>
         (\<forall>ids m. group_filter E w3 groupId = Inr ids \<and> select_users E w3 ids = Inl m \<longrightarrow>
            console (snd (createAnnouncements E w dat userId groupId)) =
              console w3 @ [LogError ''Error fetching users for email notifications:''] \<and>
            emails (snd (createAnnouncements E w dat userId groupId)) = emails w3) \<and>
         (\<forall>ids addrs e. group_filter E w3 groupId = Inr ids \<and>
            select_users E w3 ids = Inr addrs \<and> addrs \<noteq> [] \<and>
            createEmailHtml E (d_title dat) (d_content dat) fileData = Inl e \<longrightarrow>
            console (snd (createAnnouncements E w dat userId groupId)) =
              console w3 @ [LogError ''Error sending announcement emails:''] \<and>
            emails (snd (createAnnouncements E w dat userId groupId)) = emails w3) \<and>
         (\<forall>ids addrs h. group_filter E w3 groupId = Inr ids \<and>
            select_users E w3 ids = Inr addrs \<and> addrs \<noteq> [] \<and>
            createEmailHtml E (d_title dat) (d_content dat) fileData = Inr h \<longrightarrow>
            emails (snd (createAnnouncements E w dat userId groupId)) =
              emails w3 @ map (email_to (d_title dat) h) addrs \<and>
            console (snd (createAnnouncements E w dat userId groupId)) =
              console w3 @ map send_log
                (zip (map (email_to (d_title dat) h) addrs)
                   (send_outcomes E
                      (w3\<lparr>emails := emails w3 @ map (email_to (d_title dat) h) addrs\<rparr>)
                      (map (email_to (d_title dat) h) addrs))))"
proof -
  let ?w' = "snd (createAnnouncements E w dat userId groupId)"
  have run: "createAnnouncements E w dat userId groupId =
      (Inr a, notify_stage E w3 dat fileData groupId)"
    using up ins rows by (rule persisted_world(1))
  then have w': "?w' = notify_stage E w3 dat fileData groupId" by simp
  have tables: "announcement ?w' = announcement w3 \<and>
      announcement_files ?w' = announcement_files w3 \<and> uploads ?w' = uploads w3"
    using notify_stage_world [of E w3 dat fileData groupId] by (simp add: w')
  have group: "console ?w' = console w3 @ [LogError ''Error fetching group members:''] \<and>
      emails ?w' = emails w3"
    if "groupId = Some g \<and> g \<noteq> [] \<and> select_group_members E w3 g = Inl m" for g m
    using that notify_stage_group_error [of groupId g E w3 m dat fileData]
    unfolding w' by (simp add: log_error_def)
  have usrs: "console ?w' =
      console w3 @ [LogError ''Error fetching users for email notifications:''] \<and>
      emails ?w' = emails w3"
    if "group_filter E w3 groupId = Inr ids \<and> select_users E w3 ids = Inl m" for ids m
    using that notify_stage_users_error [of E w3 groupId ids m dat fileData]
    unfolding w' by (simp add: log_error_def)
  have render: "console ?w' = console w3 @ [LogError ''Error sending announcement emails:''] \<and>
      emails ?w' = emails w3"
    if "group_filter E w3 groupId = Inr ids \<and> select_users E w3 ids = Inr addrs \<and>
        addrs \<noteq> [] \<and> createEmailHtml E (d_title dat) (d_content dat) fileData = Inl e"
    for ids addrs e
    using that notify_stage_render_error [of E w3 groupId ids addrs dat fileData e]
    unfolding w' by (simp add: log_error_def)
  have sends: "emails ?w' = emails w3 @ map (email_to (d_title dat) h) addrs \<and>
      console ?w' = console w3 @ map send_log
        (zip (map (email_to (d_title dat) h) addrs)
           (send_outcomes E (w3\<lparr>emails := emails w3 @ map (email_to (d_title dat) h) addrs\<rparr>)
              (map (email_to (d_title dat) h) addrs)))"
    if "group_filter E w3 groupId = Inr ids \<and> select_users E w3 ids = Inr addrs \<and>
        addrs \<noteq> [] \<and> createEmailHtml E (d_title dat) (d_content dat) fileData = Inr h"
    for ids addrs h
    using that notify_stage_sends [of E w3 groupId ids addrs dat fileData h]
      send_emails_world [of E w3 "d_title dat" h addrs]
      send_emails_console [of E w3 "d_title dat" h addrs]
    unfolding w' by simp
  show ?thesis
    using run tables group usrs render sends
    by (intro conjI allI impI) simp_all
qed

lemma rejected_send_is_logged:
  "fst (createAnnouncements env_send_throws world_users note0 ''u1'' None) = Inr 1 \<and>
   map em_to (emails
     (snd (createAnnouncements env_send_throws world_users note0 ''u1'' None))) =
     [''ana@example.org'', ''ben@example.org'', ''dee@example.org''] \<and>
   console (snd (createAnnouncements env_send_throws world_users note0 ''u1'' None)) =
     [LogInfo ''Email sent to ana@example.org'',
      LogError ''Failed to send email to ben@example.org:'',
      LogInfo ''Email sent to dee@example.org'']"
  by (simp add: model_defs env_send_throws_def env0_def world_users_def world0_def note0_def)

text \<open>
  C4. The claim says that a failure of an individual send is caught and logged. The
  send callback only catches a promise that rejects; it does not look at the value
  the promise resolves to. When the email client answers the send to one recipient
  with an error (here the one to \<open>ben@example.org\<close>), the call still returns the
  identifier, stores the row and sends to the other recipients, and the console says
  that the email to that recipient was sent: no error is logged for the failure.
\<close>

theorem refused_send_logged_as_sent:
  "send_answer env_send_refused world_users
     (email_to ''T'' \<lparr>html_title = ''T'', html_content = ''C'', html_images = []\<rparr>
        ''ben@example.org'') = Refused ''mailbox full'' \<and>
   fst (createAnnouncements env_send_refused world_users note0 ''u1'' None) = Inr 1 \<and>
   map ann_id (announcement
     (snd (createAnnouncements env_send_refused world_users note0 ''u1'' None))) = [1] \<and>
   emails (snd (createAnnouncements env_send_refused world_users note0 ''u1'' None)) =
     map (email_to ''T'' \<lparr>html_title = ''T'', html_content = ''C'', html_images = []\<rparr>)
       [''ana@example.org'', ''ben@example.org'', ''dee@example.org''] \<and>
   console (snd (createAnnouncements env_send_refused world_users note0 ''u1'' None)) =
     [LogInfo ''Email sent to ana@example.org'',
      LogInfo ''Email sent to ben@example.org'',
      LogInfo ''Email sent to dee@example.org'']"
  by (simp add: model_defs env_send_refused_def env0_def world_users_def world0_def note0_def)

end
